theory Spec2Isabelle
  imports Main
begin

section \<open>JavaScript strings\<close>

text \<open>
  Strings are lists of 8-bit characters. The source texts are ASCII apart from two
  symbols of the message templates (a rocket and a bullet), which are written as their
  UTF-8 bytes. White space is the ASCII part of what \<^verbatim>\<open>\s\<close> and
  \<^verbatim>\<open>String.prototype.trim\<close> accept (TAB, LF, VT, FF, CR, SPACE), and
  \<^verbatim>\<open>toLowerCase\<close> acts on the letters A to Z.
\<close>

abbreviation nl :: char where
  "nl \<equiv> CHR 0x0A"

definition is_space :: "char \<Rightarrow> bool" where
  "is_space c \<longleftrightarrow>
     c = CHR 0x09 \<or> c = CHR 0x0A \<or> c = CHR 0x0B \<or> c = CHR 0x0C \<or> c = CHR 0x0D \<or> c = CHR 0x20"

definition trim :: "string \<Rightarrow> string" where
  "trim s = rev (dropWhile is_space (rev (dropWhile is_space s)))"

definition toLowerChar :: "char \<Rightarrow> char" where
  "toLowerChar c =
     (case map_of (zip ''ABCDEFGHIJKLMNOPQRSTUVWXYZ'' ''abcdefghijklmnopqrstuvwxyz'') c of
        Some d \<Rightarrow> d
      | None \<Rightarrow> c)"

definition toLowerCase :: "string \<Rightarrow> string" where
  "toLowerCase s = map toLowerChar s"

text \<open>\<^verbatim>\<open>s.startsWith(p)\<close> and \<^verbatim>\<open>s.includes(p)\<close>.\<close>

fun startsWith :: "string \<Rightarrow> string \<Rightarrow> bool" where
  "startsWith s [] = True"
| "startsWith [] (p # ps) = False"
| "startsWith (c # cs) (p # ps) = (c = p \<and> startsWith cs ps)"

fun str_includes :: "string \<Rightarrow> string \<Rightarrow> bool" where
  "str_includes [] p = startsWith [] p"
| "str_includes (c # cs) p = (startsWith (c # cs) p \<or> str_includes cs p)"

text \<open>\<^verbatim>\<open>s.split(sep)\<close> for a one-character separator, and \<^verbatim>\<open>lines.join('\n')\<close>.\<close>

fun split_on :: "char \<Rightarrow> string \<Rightarrow> string list" where
  "split_on sep [] = [[]]"
| "split_on sep (c # cs) =
     (if c = sep then [] # split_on sep cs
      else (case split_on sep cs of
              [] \<Rightarrow> [[c]]
            | l # ls \<Rightarrow> (c # l) # ls))"

abbreviation split_nl :: "string \<Rightarrow> string list" where
  "split_nl \<equiv> split_on nl"

fun join_nl :: "string list \<Rightarrow> string" where
  "join_nl [] = []"
| "join_nl [l] = l"
| "join_nl (l # m # ls) = l @ nl # join_nl (m # ls)"


section \<open>Trigger evaluator (main.js, checkTriggerConditions)\<close>

record pull_request =
  pr_merged :: bool
  pr_base_ref :: string
  pr_labels :: "string list"

text \<open>
  The context carries the event name and, for pull-request events, the pull request of
  the payload. The test suite also passes a context with no payload (a push event).
\<close>

record gh_context =
  eventName :: string
  payload_pull_request :: "pull_request option"

record trigger_inputs =
  triggerLabel :: string
  targetBranch :: string

record trigger_result =
  run :: bool
  reason :: string

datatype js_error = TypeError | ExecError | WriteError | ParseError

text \<open>
  Reading \<^verbatim>\<open>pr.merged\<close> of an absent pull request throws. A non-empty string is
  truthy, so the label check is skipped for the empty trigger label. The
  \<^verbatim>\<open>skipIfNoChanges\<close> branch only logs.
\<close>

definition checkTriggerConditions :: "trigger_inputs \<Rightarrow> gh_context \<Rightarrow> js_error + trigger_result" where
  "checkTriggerConditions config ctx =
     (if eventName ctx \<noteq> ''pull_request''
      then Inr \<lparr>run = False, reason = ''Not a pull request event''\<rparr>
      else case payload_pull_request ctx of
        None \<Rightarrow> Inl TypeError
      | Some pr \<Rightarrow>
          if \<not> pr_merged pr
          then Inr \<lparr>run = False, reason = ''PR is not merged''\<rparr>
          else if pr_base_ref pr \<noteq> targetBranch config \<and>
                  pr_base_ref pr \<notin> set [''main'', ''master'', ''dev'', ''development'']
          then Inr \<lparr>run = False,
                    reason = ''Target branch '' @ pr_base_ref pr @ '' not in allowed list''\<rparr>
          else if triggerLabel config \<noteq> [] \<and>
                  \<not> list_ex (\<lambda>name. name = triggerLabel config) (pr_labels pr)
          then Inr \<lparr>run = False,
                    reason = ''Missing required label: '' @ triggerLabel config\<rparr>
          else Inr \<lparr>run = True, reason = ''All conditions met''\<rparr>)"

text \<open>
  The evaluator as the specification words it: four checks in a fixed order, each with
  its reason; the first failing check decides, and the run is granted when none fails.
\<close>

definition trigger_checks :: "trigger_inputs \<Rightarrow> string \<Rightarrow> pull_request \<Rightarrow> (bool \<times> string) list" where
  "trigger_checks config ev pr =
     [(ev = ''pull_request'', ''Not a pull request event''),
      (pr_merged pr, ''PR is not merged''),
      (pr_base_ref pr = targetBranch config \<or>
         pr_base_ref pr \<in> {''main'', ''master'', ''dev'', ''development''},
       ''Target branch '' @ pr_base_ref pr @ '' not in allowed list''),
      (triggerLabel config = [] \<or> triggerLabel config \<in> set (pr_labels pr),
       ''Missing required label: '' @ triggerLabel config)]"

fun first_failure :: "(bool \<times> string) list \<Rightarrow> trigger_result" where
  "first_failure [] = \<lparr>run = True, reason = ''All conditions met''\<rparr>"
| "first_failure ((ok, why) # cs) =
     (if ok then first_failure cs else \<lparr>run = False, reason = why\<rparr>)"


section \<open>Change analyzer (PRAnalyzer.analyzeChanges)\<close>

record commit =
  commit_sha :: string
  commit_shortSha :: string
  commit_message :: string
  commit_author :: string
  commit_email :: string
  commit_date :: string
  commit_url :: string

text \<open>
  The pull request as the hosting API returns it; \<open>None\<close> stands for a field that is
  null or undefined.
\<close>

record pr_data =
  pr_title :: string
  pr_body :: "string option"
  pr_label_names :: "string list option"
  pr_base :: "string option"
  pr_head :: "string option"
  pr_user :: "string option"
  pr_created_at :: string
  pr_merged_at :: string

record analysis =
  a_title :: string
  a_body :: string
  a_labels :: "string list"
  baseBranch :: string
  headBranch :: string
  a_author :: string
  createdAt :: string
  mergedAt :: string
  filesChanged :: "string list"
  changeTypes :: "string list"
  isBreakingChange :: bool
  isBugfix :: bool
  isFeature :: bool
  isChore :: bool

text \<open>\<^verbatim>\<open>x || d\<close> on a string that may be absent: the empty string is falsy too.\<close>

definition or_else :: "string option \<Rightarrow> string \<Rightarrow> string" where
  "or_else x d = (case x of None \<Rightarrow> d | Some s \<Rightarrow> if s = [] then d else s)"

text \<open>
  \<^verbatim>\<open>changeTypes\<close> is a \<^verbatim>\<open>Set\<close> turned into an array at the end: the
  elements are kept in the order of their first insertion.
\<close>

definition set_add :: "string list \<Rightarrow> string \<Rightarrow> string list" where
  "set_add xs x = (if x \<in> set xs then xs else xs @ [x])"

definition commit_step :: "analysis \<Rightarrow> commit \<Rightarrow> analysis" where
  "commit_step a0 c =
     (let message = toLowerCase (commit_message c);
          a1 = (if str_includes message ''breaking change'' \<or> str_includes message ''!:''
                then a0\<lparr>isBreakingChange := True,
                        changeTypes := set_add (changeTypes a0) ''breaking''\<rparr>
                else a0);
          a2 = (if startsWith message ''feat''
                then a1\<lparr>isFeature := True,
                        changeTypes := set_add (changeTypes a1) ''feature''\<rparr>
                else a1);
          a3 = (if startsWith message ''fix''
                then a2\<lparr>isBugfix := True,
                        changeTypes := set_add (changeTypes a2) ''bugfix''\<rparr>
                else a2)
      in if startsWith message ''chore'' \<or> startsWith message ''ci'' \<or> startsWith message ''docs''
         then a3\<lparr>isChore := True, changeTypes := set_add (changeTypes a3) ''chore''\<rparr>
         else a3)"

definition label_step :: "analysis \<Rightarrow> string \<Rightarrow> analysis" where
  "label_step a0 label =
     (let lowerLabel = toLowerCase label;
          a1 = (if str_includes lowerLabel ''breaking''
                then a0\<lparr>isBreakingChange := True,
                        changeTypes := set_add (changeTypes a0) ''breaking''\<rparr>
                else a0);
          a2 = (if str_includes lowerLabel ''bug'' \<or> str_includes lowerLabel ''fix''
                then a1\<lparr>isBugfix := True,
                        changeTypes := set_add (changeTypes a1) ''bugfix''\<rparr>
                else a1)
      in if str_includes lowerLabel ''feature'' \<or> str_includes lowerLabel ''enhancement''
         then a2\<lparr>isFeature := True, changeTypes := set_add (changeTypes a2) ''feature''\<rparr>
         else a2)"

text \<open>
  The diff pass. A line that starts with \<^verbatim>\<open>diff --git\<close> is matched against
  \<^verbatim>\<open>/diff --git a\/(.+) b\/(.+)/\<close>: at the leftmost place where the literal head
  matches, the first group is taken as long as possible so that \<^verbatim>\<open> b/\<close> and at
  least one more character follow; the second group is the rest of the line. A dot
  matches any character but a line terminator.
\<close>

definition is_dot :: "char \<Rightarrow> bool" where
  "is_dot c \<longleftrightarrow> c \<noteq> CHR 0x0A \<and> c \<noteq> CHR 0x0D"

fun after_group1 :: "string \<Rightarrow> string option" where
  "after_group1 [] = None"
| "after_group1 (c # cs) =
     (case (if is_dot c then after_group1 cs else None) of
        Some g \<Rightarrow> Some g
      | None \<Rightarrow>
          if startsWith (c # cs) '' b/'' \<and> takeWhile is_dot (drop 3 (c # cs)) \<noteq> []
          then Some (takeWhile is_dot (drop 3 (c # cs)))
          else None)"

definition match_from_a :: "string \<Rightarrow> string option" where
  "match_from_a rest =
     (case rest of [] \<Rightarrow> None | c # cs \<Rightarrow> if is_dot c then after_group1 cs else None)"

fun diff_git_match :: "string \<Rightarrow> string option" where
  "diff_git_match [] = None"
| "diff_git_match (c # cs) =
     (case (if startsWith (c # cs) ''diff --git a/'' then match_from_a (drop 13 (c # cs)) else None) of
        Some g \<Rightarrow> Some g
      | None \<Rightarrow> diff_git_match cs)"

definition diff_step :: "analysis \<Rightarrow> string \<Rightarrow> analysis" where
  "diff_step a line =
     (if startsWith line ''diff --git''
      then (case diff_git_match line of
              None \<Rightarrow> a
            | Some currentFile \<Rightarrow>
                if currentFile \<in> set (filesChanged a) then a
                else a\<lparr>filesChanged := filesChanged a @ [currentFile]\<rparr>)
      else a)"

text \<open>\<^verbatim>\<open>commits || []\<close> and \<^verbatim>\<open>pr.labels || []\<close>.\<close>

definition commits_or_empty :: "commit list option \<Rightarrow> commit list" where
  "commits_or_empty commits = (case commits of None \<Rightarrow> [] | Some cs \<Rightarrow> cs)"

definition labels_or_empty :: "string list option \<Rightarrow> string list" where
  "labels_or_empty ls = (case ls of None \<Rightarrow> [] | Some names \<Rightarrow> names)"

text \<open>
  \<open>diff\<close> is \<open>None\<close> when the value passed is not a string; \<open>commits\<close> is \<open>None\<close> when
  the argument is null (an omitted argument defaults to the empty list).
\<close>

definition analyzeChanges :: "pr_data \<Rightarrow> string option \<Rightarrow> commit list option \<Rightarrow> analysis" where
  "analyzeChanges pr diff commits =
     (let analysis0 = \<lparr>a_title = pr_title pr,
                       a_body = or_else (pr_body pr) [],
                       a_labels = labels_or_empty (pr_label_names pr),
                       baseBranch = or_else (pr_base pr) ''unknown'',
                       headBranch = or_else (pr_head pr) ''unknown'',
                       a_author = or_else (pr_user pr) ''unknown'',
                       createdAt = pr_created_at pr,
                       mergedAt = pr_merged_at pr,
                       filesChanged = [],
                       changeTypes = [],
                       isBreakingChange = False,
                       isBugfix = False,
                       isFeature = False,
                       isChore = False\<rparr>;
          analysis1 = foldl commit_step analysis0 (commits_or_empty commits);
          analysis2 = foldl label_step analysis1 (a_labels analysis1)
      in case diff of
           None \<Rightarrow> analysis2
         | Some d \<Rightarrow> if d = [] then analysis2 else foldl diff_step analysis2 (split_nl d))"


text \<open>
  What the specification calls evidence: the change types a commit message, respectively a
  label name, speaks for. \<open>flags_agree\<close> says that the four flags and the collected change
  types tell the same story.
\<close>

definition commit_evidence :: "string \<Rightarrow> string set" where
  "commit_evidence m =
     (let l = toLowerCase m in
        (if str_includes l ''breaking change'' \<or> str_includes l ''!:'' then {''breaking''} else {}) \<union>
        (if startsWith l ''feat'' then {''feature''} else {}) \<union>
        (if startsWith l ''fix'' then {''bugfix''} else {}) \<union>
        (if startsWith l ''chore'' \<or> startsWith l ''ci'' \<or> startsWith l ''docs''
         then {''chore''} else {}))"

definition label_evidence :: "string \<Rightarrow> string set" where
  "label_evidence lb =
     (let l = toLowerCase lb in
        (if str_includes l ''breaking'' then {''breaking''} else {}) \<union>
        (if str_includes l ''bug'' \<or> str_includes l ''fix'' then {''bugfix''} else {}) \<union>
        (if str_includes l ''feature'' \<or> str_includes l ''enhancement'' then {''feature''} else {}))"

definition flags_agree :: "analysis \<Rightarrow> bool" where
  "flags_agree a \<longleftrightarrow>
     (isBreakingChange a \<longleftrightarrow> ''breaking'' \<in> set (changeTypes a)) \<and>
     (isFeature a \<longleftrightarrow> ''feature'' \<in> set (changeTypes a)) \<and>
     (isBugfix a \<longleftrightarrow> ''bugfix'' \<in> set (changeTypes a)) \<and>
     (isChore a \<longleftrightarrow> ''chore'' \<in> set (changeTypes a))"


section \<open>Version deriver (VersionManager, GitUtils)\<close>

text \<open>
  \<^verbatim>\<open>getLatestTag\<close> runs \<^verbatim>\<open>git describe --tags --abbrev=0\<close> with the return code
  ignored; its arguments here are the exit code and the standard output.
\<close>

definition getLatestTag :: "int \<Rightarrow> string \<Rightarrow> string" where
  "getLatestTag exitCode output =
     (if exitCode = 0 \<and> trim output \<noteq> [] then trim output else ''1.0.0'')"

text \<open>
  \<^verbatim>\<open>getShortCommit\<close> runs \<^verbatim>\<open>git rev-parse --short HEAD\<close>; a failing command
  throws (\<open>None\<close> is the failing command, \<open>Some out\<close> its standard output).
\<close>

definition getShortCommit :: "string option \<Rightarrow> js_error + string" where
  "getShortCommit out = (case out of None \<Rightarrow> Inl ExecError | Some output \<Rightarrow> Inr (trim output))"

text \<open>The loop over the prefixes, leaving at the first prefix that matches.\<close>

fun strip_first_prefix :: "string list \<Rightarrow> string \<Rightarrow> string" where
  "strip_first_prefix [] cleaned = cleaned"
| "strip_first_prefix (pfx # pfxs) cleaned =
     (if startsWith cleaned pfx then drop (length pfx) cleaned
      else strip_first_prefix pfxs cleaned)"

text \<open>
  \<^verbatim>\<open>semver.valid\<close> belongs to the semver package, not to this program: \<open>valid\<close> is
  its truth value (a valid version gives a non-empty string, anything else null).
\<close>

definition cleanVersion :: "(string \<Rightarrow> bool) \<Rightarrow> string \<Rightarrow> string" where
  "cleanVersion valid version =
     (let cleaned = strip_first_prefix [''v'', ''release-'', ''version-''] version
      in if \<not> valid cleaned then ''1.0.0'' else cleaned)"

text \<open>
  The validity test of the semver package (strict mode), for the worked examples: the
  text is trimmed, at most 256 characters long, an optional \<^verbatim>\<open>v\<close>, three numeric
  identifiers without leading zeros and not above \<open>2^53 - 1\<close>, an optional
  \<^verbatim>\<open>-prerelease\<close> and an optional \<^verbatim>\<open>+build\<close>, each a dotted list of identifiers.
\<close>

definition is_digit :: "char \<Rightarrow> bool" where
  "is_digit c \<longleftrightarrow> c \<in> set ''0123456789''"

definition is_ident_char :: "char \<Rightarrow> bool" where
  "is_ident_char c \<longleftrightarrow>
     c \<in> set ''0123456789ABCDEFGHIJKLMNOPQRSTUVWXYZabcdefghijklmnopqrstuvwxyz-''"

definition digit_value :: "char \<Rightarrow> int" where
  "digit_value c =
     (case map_of (zip ''0123456789'' [0, 1, 2, 3, 4, 5, 6, 7, 8, 9]) c of
        Some d \<Rightarrow> d
      | None \<Rightarrow> 0)"

definition int_of_digits :: "string \<Rightarrow> int" where
  "int_of_digits ds = foldl (\<lambda>n c. 10 * n + digit_value c) 0 ds"

definition numeric_identifier :: "string \<Rightarrow> bool" where
  "numeric_identifier s \<longleftrightarrow>
     s \<noteq> [] \<and> list_all is_digit s \<and> (s = ''0'' \<or> \<not> startsWith s ''0'')"

definition prerelease_identifier :: "string \<Rightarrow> bool" where
  "prerelease_identifier s \<longleftrightarrow>
     s \<noteq> [] \<and> list_all is_ident_char s \<and> (list_all is_digit s \<longrightarrow> numeric_identifier s)"

definition build_identifier :: "string \<Rightarrow> bool" where
  "build_identifier s \<longleftrightarrow> s \<noteq> [] \<and> list_all is_ident_char s"

definition main_version :: "string \<Rightarrow> bool" where
  "main_version s =
     (case split_on CHR ''.'' s of
        [major, minor, patch] \<Rightarrow>
          list_all (\<lambda>n. numeric_identifier n \<and> int_of_digits n \<le> 9007199254740991)
            [major, minor, patch]
      | _ \<Rightarrow> False)"

definition semver_valid :: "string \<Rightarrow> bool" where
  "semver_valid version =
     (let t = trim version;
          u = (if startsWith t ''v'' then drop 1 t else t);
          plain = takeWhile (\<lambda>c. c \<noteq> CHR ''+'') u;
          build = dropWhile (\<lambda>c. c \<noteq> CHR ''+'') u;
          main = takeWhile (\<lambda>c. c \<noteq> CHR ''-'') plain;
          pre = dropWhile (\<lambda>c. c \<noteq> CHR ''-'') plain
      in length version \<le> 256 \<and> main_version main \<and>
         (pre = [] \<or> list_all prerelease_identifier (split_on CHR ''.'' (drop 1 pre))) \<and>
         (build = [] \<or> list_all build_identifier (split_on CHR ''.'' (drop 1 build))))"

record version_inputs =
  versionStrategy :: string
  versionPrefix :: string
  environment :: string

definition isProductionEnvironment :: "string \<Rightarrow> bool" where
  "isProductionEnvironment env \<longleftrightarrow> toLowerCase env = ''prod''"

record git_facts =
  describe_exit :: int
  describe_output :: string
  rev_parse_short :: "string option"

record version_info =
  newVersion :: string
  previousVersion :: string
  tagName :: string
  cleanPreviousVersion :: string

text \<open>
  \<^verbatim>\<open>generateVersion\<close>. The release-grade branch calls \<^verbatim>\<open>incrementVersion\<close>, which
  goes through \<^verbatim>\<open>semver.inc\<close> and JavaScript number arithmetic; it is the parameter
  \<open>incrementVersion\<close> here. \<open>versionIncrement\<close> is \<open>None\<close> for null.
\<close>

definition generateVersion ::
  "(string \<Rightarrow> bool) \<Rightarrow> (string \<Rightarrow> string \<Rightarrow> string) \<Rightarrow> version_inputs \<Rightarrow> git_facts \<Rightarrow>
   string option \<Rightarrow> js_error + version_info" where
  "generateVersion valid incrementVersion config git versionIncrement =
     (let latestTag = getLatestTag (describe_exit git) (describe_output git);
          increment = or_else versionIncrement (versionStrategy config);
          cleanLatestVersion = cleanVersion valid latestTag;
          result = (\<lambda>v. \<lparr>newVersion = v,
                         previousVersion = latestTag,
                         tagName = versionPrefix config @ v,
                         cleanPreviousVersion = cleanLatestVersion\<rparr>)
      in if isProductionEnvironment (environment config)
         then Inr (result (incrementVersion cleanLatestVersion increment))
         else (case getShortCommit (rev_parse_short git) of
                 Inl e \<Rightarrow> Inl e
               | Inr shortCommit \<Rightarrow> Inr (result (cleanLatestVersion @ ''-dev.'' @ shortCommit))))"


section \<open>Release-note synthesizer (ReleaseNotesGenerator)\<close>

definition rocket :: string where
  "rocket = [CHR 0xF0, CHR 0x9F, CHR 0x9A, CHR 0x80]"

definition bullet :: string where
  "bullet = [CHR 0xE2, CHR 0x80, CHR 0xA2]"

record note_texts =
  releaseNotes :: string
  slackMessage :: string

subsection \<open>Parsing the reply\<close>

text \<open>
  \<^verbatim>\<open>/START\s*\n([\s\S]*?)\nEND/\<close>, as the backtracking matcher finds it. At a place
  where the start marker stands, \<^verbatim>\<open>\s*\n\<close> is tried with the longest run of white
  space first (\<open>after_spaces\<close> lists what may follow it, in that order); the lazy group
  then stops at the first \<^verbatim>\<open>\nEND\<close> (\<open>lazy_until\<close>). The leftmost place that
  matches wins, and the result is the group.
\<close>

fun lazy_until :: "string \<Rightarrow> string \<Rightarrow> string option" where
  "lazy_until endMarker [] = None"
| "lazy_until endMarker (c # cs) =
     (if startsWith (c # cs) (nl # endMarker) then Some []
      else map_option ((#) c) (lazy_until endMarker cs))"

fun after_spaces :: "string \<Rightarrow> string list" where
  "after_spaces [] = []"
| "after_spaces (c # cs) =
     (if is_space c then after_spaces cs @ (if c = nl then [cs] else []) else [])"

fun first_some :: "('a \<Rightarrow> 'b option) \<Rightarrow> 'a list \<Rightarrow> 'b option" where
  "first_some f [] = None"
| "first_some f (x # xs) = (case f x of Some y \<Rightarrow> Some y | None \<Rightarrow> first_some f xs)"

definition block_here :: "string \<Rightarrow> string \<Rightarrow> string \<Rightarrow> string option" where
  "block_here startMarker endMarker s =
     (if startsWith s startMarker
      then first_some (lazy_until endMarker) (after_spaces (drop (length startMarker) s))
      else None)"

fun match_block :: "string \<Rightarrow> string \<Rightarrow> string \<Rightarrow> string option" where
  "match_block startMarker endMarker [] = block_here startMarker endMarker []"
| "match_block startMarker endMarker (c # cs) =
     (case block_here startMarker endMarker (c # cs) of
        Some g \<Rightarrow> Some g
      | None \<Rightarrow> match_block startMarker endMarker cs)"

text \<open>
  \<^verbatim>\<open>s.replace(/PAT/g, rep)\<close> for a literal, non-empty pattern. The replacement is
  the build number (digits and a dot), so no \<^verbatim>\<open>$\<close> pattern of the replacement
  string comes into play.
\<close>

fun replace_all :: "string \<Rightarrow> string \<Rightarrow> string \<Rightarrow> string" where
  "replace_all pat rep [] = []"
| "replace_all pat rep (c # cs) =
     (if pat \<noteq> [] \<and> startsWith (c # cs) pat
      then rep @ replace_all pat rep (drop (length pat - 1) cs)
      else c # replace_all pat rep cs)"

definition extractSlackSummary :: "string \<Rightarrow> string \<Rightarrow> string" where
  "extractSlackSummary text buildNumber =
     (let lines = filter (\<lambda>line. trim line \<noteq> []) (split_nl text);
          summary = join_nl (take 5 lines)
      in rocket @ '' Build '' @ buildNumber @ '' deployed'' @ [nl, nl] @ summary)"

text \<open>The trimmed group of a block, or the empty string when the block is not matched.\<close>

definition block_text :: "string \<Rightarrow> string \<Rightarrow> string \<Rightarrow> string" where
  "block_text startMarker endMarker aiOutput =
     (case match_block startMarker endMarker aiOutput of
        Some g \<Rightarrow> trim g
      | None \<Rightarrow> [])"

text \<open>\<^verbatim>\<open>parseAIResponse\<close> of the generator that calls the generation API directly.\<close>

definition parseAIResponse :: "string \<Rightarrow> string \<Rightarrow> note_texts" where
  "parseAIResponse aiOutput buildNumber =
     (let releaseNotes0 = block_text ''RELEASE_NOTES_START'' ''RELEASE_NOTES_END'' aiOutput;
          slackMessage0 = block_text ''SLACK_MESSAGE_START'' ''SLACK_MESSAGE_END'' aiOutput;
          (releaseNotes1, slackMessage1) =
            (if releaseNotes0 = [] \<and> slackMessage0 = []
             then (aiOutput, extractSlackSummary aiOutput buildNumber)
             else if releaseNotes0 = []
             then (aiOutput, slackMessage0)
             else if slackMessage0 = []
             then (releaseNotes0, extractSlackSummary releaseNotes0 buildNumber)
             else (releaseNotes0, slackMessage0))
      in \<lparr>releaseNotes = replace_all ''BUILD_NUMBER'' buildNumber releaseNotes1,
          slackMessage = replace_all ''BUILD_NUMBER'' buildNumber slackMessage1\<rparr>)"

text \<open>
  \<^verbatim>\<open>parseAIResponse\<close> of the two older generators kept in the repository (the one
  that runs the command-line client and its successor): a missing section is an error.
\<close>

definition parseAIResponse_strict :: "string \<Rightarrow> string \<Rightarrow> js_error + note_texts" where
  "parseAIResponse_strict aiOutput buildNumber =
     (let releaseNotes0 = block_text ''RELEASE_NOTES_START'' ''RELEASE_NOTES_END'' aiOutput;
          slackMessage0 = block_text ''SLACK_MESSAGE_START'' ''SLACK_MESSAGE_END'' aiOutput;
          releaseNotes1 = replace_all ''BUILD_NUMBER'' buildNumber releaseNotes0;
          slackMessage1 = replace_all ''BUILD_NUMBER'' buildNumber slackMessage0
      in if releaseNotes1 = [] \<or> slackMessage1 = [] then Inl ParseError
         else Inr \<lparr>releaseNotes = releaseNotes1, slackMessage = slackMessage1\<rparr>)"

subsection \<open>Calling the backend\<close>

text \<open>
  The backend call is seen through its reply: \<open>None\<close> when the call fails (no key, a
  thrown error, a reply without text), \<open>Some text\<close> for the text of the reply. The result
  of \<^verbatim>\<open>callGeminiAPI\<close> is \<open>None\<close> for \<^verbatim>\<open>{success: false}\<close> and \<open>Some out\<close> for
  \<^verbatim>\<open>{success: true, output: out}\<close>. Building the prompt only feeds the backend.
\<close>

definition callGeminiAPI :: "string option \<Rightarrow> string option" where
  "callGeminiAPI reply =
     (case reply of
        None \<Rightarrow> None
      | Some output \<Rightarrow> if output \<noteq> [] then Some (trim output) else None)"

definition generateWithAI :: "string option \<Rightarrow> string \<Rightarrow> note_texts option" where
  "generateWithAI reply buildNumber =
     (case callGeminiAPI reply of
        None \<Rightarrow> None
      | Some output \<Rightarrow>
          if output \<noteq> [] then Some (parseAIResponse output buildNumber) else None)"

definition generateWithAI_strict :: "string option \<Rightarrow> string \<Rightarrow> note_texts option" where
  "generateWithAI_strict reply buildNumber =
     (case callGeminiAPI reply of
        None \<Rightarrow> None
      | Some output \<Rightarrow>
          if output \<noteq> []
          then (case parseAIResponse_strict output buildNumber of
                  Inl e \<Rightarrow> None
                | Inr parsed \<Rightarrow> Some parsed)
          else None)"

subsection \<open>The template path\<close>

record template_inputs =
  rn_environment :: string
  maxCommitsFallback :: int
  includeCommitLinks :: bool

record pr_analysis =
  pa_analysis :: analysis
  pa_commits :: "commit list option"

record built_version = version_info +
  buildNumber :: string

text \<open>\<^verbatim>\<open>xs.slice(0, n)\<close>: a negative \<open>n\<close> counts from the end.\<close>

definition slice0 :: "int \<Rightarrow> 'a list \<Rightarrow> 'a list" where
  "slice0 n xs = (if n < 0 then take (length xs - nat (- n)) xs else take (nat n) xs)"

text \<open>\<^verbatim>\<open>message.split('\n')[0]\<close>.\<close>

definition first_line :: "string \<Rightarrow> string" where
  "first_line message = (case split_nl message of [] \<Rightarrow> [] | l # ls \<Rightarrow> l)"

definition publicChanges :: "analysis \<Rightarrow> string" where
  "publicChanges a =
     (if isBreakingChange a then ''Breaking changes - please review migration notes''
      else if isFeature a then ''New features and enhancements''
      else if isBugfix a then ''Bug fixes and stability improvements''
      else ''General improvements and bug fixes'')"

definition internalChanges :: "template_inputs \<Rightarrow> commit list option \<Rightarrow> string list" where
  "internalChanges config commits =
     (let changes =
            (case commits of
               None \<Rightarrow> []
             | Some cs \<Rightarrow>
                 if length cs > 0
                 then map (\<lambda>c. first_line (commit_message c) @
                                (if includeCommitLinks config
                                 then '' (['' @ commit_shortSha c @ '']('' @ commit_url c @ ''))''
                                 else []))
                        (slice0 (maxCommitsFallback config) cs)
                 else [])
      in if length changes = 0 then [''Various code improvements and maintenance''] else changes)"

definition slackCommits :: "commit list option \<Rightarrow> string list" where
  "slackCommits commits =
     (case commits of
        Some cs \<Rightarrow> map (\<lambda>c. first_line (commit_message c)) (slice0 3 cs)
      | None \<Rightarrow> [''Various improvements''])"

definition title_line :: "template_inputs \<Rightarrow> built_version \<Rightarrow> string" where
  "title_line config versionInfo =
     ''v'' @ newVersion versionInfo @ '' - '' @ buildNumber versionInfo @
     '' ['' @ rn_environment config @ '']''"

definition generateFromTemplate :: "template_inputs \<Rightarrow> pr_analysis \<Rightarrow> built_version \<Rightarrow> note_texts" where
  "generateFromTemplate config prAnalysis versionInfo =
     \<lparr>releaseNotes =
        ''## '' @ title_line config versionInfo @ [nl, nl] @
        ''### Public'' @ [nl] @ publicChanges (pa_analysis prAnalysis) @ [nl, nl] @
        ''### Internal'' @ [nl] @
        join_nl (map (\<lambda>change. ''- '' @ change) (internalChanges config (pa_commits prAnalysis))),
      slackMessage =
        rocket @ '' *'' @ title_line config versionInfo @ ''*'' @ [nl, nl] @
        ''*Changes:*'' @ [nl] @
        join_nl (map (\<lambda>change. bullet @ '' '' @ change) (slackCommits (pa_commits prAnalysis)))\<rparr>"

subsection \<open>Generation as a whole\<close>

record generated = note_texts +
  aiGenerated :: bool
  generatedBuildNumber :: string

text \<open>
  \<^verbatim>\<open>generateReleaseNotes\<close>: the reply is asked for only when a backend is configured;
  \<open>save_ok\<close> tells whether writing the two files succeeds (a failing write throws).
\<close>

definition generateReleaseNotes ::
  "template_inputs \<Rightarrow> bool \<Rightarrow> string option \<Rightarrow> bool \<Rightarrow> pr_analysis \<Rightarrow> built_version \<Rightarrow>
   js_error + generated" where
  "generateReleaseNotes config isAiEnabled reply save_ok prAnalysis versionInfo =
     (let aiResult = (if isAiEnabled then generateWithAI reply (buildNumber versionInfo) else None);
          result = (case aiResult of
                      Some parsed \<Rightarrow>
                        \<lparr>releaseNotes = releaseNotes parsed, slackMessage = slackMessage parsed,
                         aiGenerated = True, generatedBuildNumber = buildNumber versionInfo\<rparr>
                    | None \<Rightarrow>
                        (let templateResult = generateFromTemplate config prAnalysis versionInfo
                         in \<lparr>releaseNotes = releaseNotes templateResult,
                             slackMessage = slackMessage templateResult,
                             aiGenerated = False,
                             generatedBuildNumber = buildNumber versionInfo\<rparr>))
      in if save_ok then Inr result else Inl WriteError)"

text \<open>
  The priority rule as the specification words it: the rules in their order, the first
  rule whose flag is set gives the message, and the generic message is left when none is.
\<close>

definition public_rules :: "analysis \<Rightarrow> (bool \<times> string) list" where
  "public_rules a =
     [(isBreakingChange a, ''Breaking changes - please review migration notes''),
      (isFeature a, ''New features and enhancements''),
      (isBugfix a, ''Bug fixes and stability improvements'')]"

fun first_rule :: "(bool \<times> string) list \<Rightarrow> string \<Rightarrow> string" where
  "first_rule [] generic = generic"
| "first_rule ((flag, message) # rules) generic = (if flag then message else first_rule rules generic)"


section \<open>Changelog insertion (ChangelogManager)\<close>

definition createInitialChangelog :: "string option \<Rightarrow> string" where
  "createInitialChangelog github_repository =
     (let repoName = or_else github_repository ''Repository''
      in ''# Changelog'' @ [nl, nl] @
         ''All notable changes to '' @ repoName @ '' will be documented in this file.'' @ [nl, nl] @
         ''The format is based on [Keep a Changelog](https://keepachangelog.com/en/1.0.0/),'' @ [nl] @
         ''and this project adheres to [Semantic Versioning](https://semver.org/spec/v2.0.0.html).'' @
         [nl, nl])"

text \<open>
  \<^verbatim>\<open>/^##\s+\[?\d+\.\d+\.\d+/\<close>. White space, the bracket and the digits exclude one
  another, so each greedy run is the only way to match.
\<close>

definition digits_then :: "string \<Rightarrow> string option" where
  "digits_then s = (if takeWhile is_digit s = [] then None else Some (dropWhile is_digit s))"

definition three_numbers :: "string \<Rightarrow> bool" where
  "three_numbers s =
     (case digits_then s of
        None \<Rightarrow> False
      | Some r1 \<Rightarrow>
          startsWith r1 ''.'' \<and>
          (case digits_then (drop 1 r1) of
             None \<Rightarrow> False
           | Some r2 \<Rightarrow> startsWith r2 ''.'' \<and> digits_then (drop 1 r2) \<noteq> None))"

definition is_version_heading :: "string \<Rightarrow> bool" where
  "is_version_heading line =
     (startsWith line ''##'' \<and>
      (let r = drop 2 line;
           r1 = dropWhile is_space r;
           r2 = (if startsWith r1 ''['' then drop 1 r1 else r1)
       in takeWhile is_space r \<noteq> [] \<and> three_numbers r2))"

text \<open>The loop of \<^verbatim>\<open>findInsertionPoint\<close>, from index \<open>i\<close> on the remaining lines.\<close>

fun findInsertionPoint_from :: "nat \<Rightarrow> string list \<Rightarrow> nat" where
  "findInsertionPoint_from i [] = i"
| "findInsertionPoint_from i (l # ls) =
     (let line = trim l
      in if is_version_heading line then i
         else if i > 5 \<and> line \<noteq> [] \<and> \<not> startsWith line ''#'' \<and>
                 \<not> startsWith line ''The format is''
         then i
         else findInsertionPoint_from (Suc i) ls)"

definition findInsertionPoint :: "string list \<Rightarrow> nat" where
  "findInsertionPoint lines = findInsertionPoint_from 0 lines"

text \<open>\<^verbatim>\<open>lines.splice(insertIndex, 0, newEntry)\<close>, then the lines joined again.\<close>

definition insertEntry :: "string \<Rightarrow> string \<Rightarrow> string" where
  "insertEntry currentContent newEntry =
     (let lines = split_nl currentContent;
          insertIndex = findInsertionPoint lines
      in join_nl (take insertIndex lines @ [newEntry] @ drop insertIndex lines))"


section \<open>Worked examples: fixtures\<close>

definition commit_with :: "string \<Rightarrow> commit" where
  "commit_with message =
     \<lparr>commit_sha = ''0a1b2c3d4e5f60718293a4b5c6d7e8f901234567'',
      commit_shortSha = ''0a1b2c3'',
      commit_message = message,
      commit_author = ''dev'',
      commit_email = ''dev@example.com'',
      commit_date = ''2024-01-01T00:00:00Z'',
      commit_url = ''https://github.com/o/r/commit/0a1b2c3''\<rparr>"

definition pr_with_labels :: "string list \<Rightarrow> pr_data" where
  "pr_with_labels names =
     \<lparr>pr_title = ''Test PR'',
      pr_body = Some ''Test PR description'',
      pr_label_names = Some names,
      pr_base = Some ''main'',
      pr_head = Some ''feature-branch'',
      pr_user = Some ''test-user'',
      pr_created_at = ''2024-01-01T00:00:00Z'',
      pr_merged_at = ''2024-01-02T00:00:00Z''\<rparr>"


section \<open>Splitting and joining lines: results\<close>

lemma split_on_not_Nil: "split_on sep s \<noteq> []"
  by (induction s) (auto split: list.split)

lemma split_on_no_sep: "l \<in> set (split_on sep s) \<Longrightarrow> sep \<notin> set l"
  by (induction s arbitrary: l) (auto split: list.splits if_splits)

lemma split_on_id: "sep \<notin> set a \<Longrightarrow> split_on sep a = [a]"
  by (induction a) auto

lemma split_on_prepend:
  "sep \<notin> set a \<Longrightarrow> split_on sep (a @ b) = (a @ hd (split_on sep b)) # tl (split_on sep b)"
  using split_on_not_Nil [of sep b]
  by (induction a) (auto split: list.split)

lemma split_on_append_sep: "split_on sep (a @ sep # b) = split_on sep a @ split_on sep b"
  using split_on_not_Nil [of sep b]
  by (induction a) (auto split: list.split simp: split_on_not_Nil)

lemma join_nl_append:
  "xs \<noteq> [] \<Longrightarrow> ys \<noteq> [] \<Longrightarrow> join_nl (xs @ ys) = join_nl xs @ nl # join_nl ys"
  by (induction xs rule: join_nl.induct) (auto simp: neq_Nil_conv)

lemma join_split: "join_nl (split_nl s) = s"
proof (induction s)
  case Nil
  then show ?case by simp
next
  case (Cons c s)
  obtain l ls where sp: "split_nl s = l # ls"
    using split_on_not_Nil [of nl s] by (cases "split_nl s") auto
  with Cons show ?case
    by (cases ls) auto
qed

lemma split_join: "xs \<noteq> [] \<Longrightarrow> split_nl (join_nl xs) = concat (map split_nl xs)"
  by (induction xs rule: join_nl.induct) (simp_all add: split_on_append_sep)

lemma concat_split_lines: "\<forall>l \<in> set ls. nl \<notin> set l \<Longrightarrow> concat (map split_nl ls) = ls"
  by (induction ls) (simp_all add: split_on_id)


section \<open>Trigger evaluator: results\<close>

lemma list_ex_eq_member: "list_ex (\<lambda>name. name = l) ls \<longleftrightarrow> l \<in> set ls"
  by (induction ls) auto

lemma first_failure_run: "run (first_failure cs) \<longleftrightarrow> (\<forall>c \<in> set cs. fst c)"
  by (induction cs rule: first_failure.induct) auto

lemma first_failure_reason: "run (first_failure cs) \<Longrightarrow> reason (first_failure cs) = ''All conditions met''"
  by (induction cs rule: first_failure.induct) (auto split: if_splits)

text \<open>
  C3. For an event that carries its pull request, the evaluator returns the result of
  the first failing check among (1) the event is a pull-request event, (2) the pull
  request is merged, (3) the target branch is the configured branch or one of main,
  master, dev, development, (4) the configured trigger label, if any, is among the labels;
  an event of another kind is rejected without looking at the payload. The run is
  granted exactly when the four checks pass, and then the reason is "All conditions met".
\<close>

theorem checkTriggerConditions_first_failure:
  assumes "eventName ctx = ''pull_request'' \<longrightarrow> payload_pull_request ctx = Some pr"
  shows "\<exists>r. checkTriggerConditions config ctx = Inr r \<and>
             (payload_pull_request ctx = Some pr \<longrightarrow>
                r = first_failure (trigger_checks config (eventName ctx) pr)) \<and>
             (eventName ctx \<noteq> ''pull_request'' \<longrightarrow>
                r = \<lparr>run = False, reason = ''Not a pull request event''\<rparr>) \<and>
             (run r \<longleftrightarrow>
                eventName ctx = ''pull_request'' \<and> pr_merged pr \<and>
                (pr_base_ref pr = targetBranch config \<or>
                 pr_base_ref pr \<in> {''main'', ''master'', ''dev'', ''development''}) \<and>
                (triggerLabel config = [] \<or> triggerLabel config \<in> set (pr_labels pr))) \<and>
             (run r \<longrightarrow> reason r = ''All conditions met'')"
proof (cases "eventName ctx = ''pull_request''")
  case False
  then show ?thesis
    by (simp add: checkTriggerConditions_def trigger_checks_def)
next
  case True
  with assms have pr: "payload_pull_request ctx = Some pr" by simp
  show ?thesis
    using True pr
    by (simp add: checkTriggerConditions_def trigger_checks_def list_ex_eq_member)
qed

theorem checkTriggerConditions_first_failure_witness:
  "checkTriggerConditions \<lparr>triggerLabel = ''release-notes'', targetBranch = ''main''\<rparr>
     \<lparr>eventName = ''pull_request'',
      payload_pull_request = Some \<lparr>pr_merged = True, pr_base_ref = ''main'',
                                   pr_labels = [''release-notes'']\<rparr>\<rparr>
   = Inr \<lparr>run = True, reason = ''All conditions met''\<rparr>
   \<and> checkTriggerConditions \<lparr>triggerLabel = ''release-notes'', targetBranch = ''main''\<rparr>
     \<lparr>eventName = ''pull_request'',
      payload_pull_request = Some \<lparr>pr_merged = False, pr_base_ref = ''main'',
                                   pr_labels = [''release-notes'']\<rparr>\<rparr>
   = Inr \<lparr>run = False, reason = ''PR is not merged''\<rparr>"
  using checkTriggerConditions_first_failure
    [of "\<lparr>eventName = ''pull_request'',
          payload_pull_request = Some \<lparr>pr_merged = True, pr_base_ref = ''main'',
                                       pr_labels = [''release-notes'']\<rparr>\<rparr>"
        "\<lparr>pr_merged = True, pr_base_ref = ''main'', pr_labels = [''release-notes'']\<rparr>"
        "\<lparr>triggerLabel = ''release-notes'', targetBranch = ''main''\<rparr>"]
    checkTriggerConditions_first_failure
    [of "\<lparr>eventName = ''pull_request'',
          payload_pull_request = Some \<lparr>pr_merged = False, pr_base_ref = ''main'',
                                       pr_labels = [''release-notes'']\<rparr>\<rparr>"
        "\<lparr>pr_merged = False, pr_base_ref = ''main'', pr_labels = [''release-notes'']\<rparr>"
        "\<lparr>triggerLabel = ''release-notes'', targetBranch = ''main''\<rparr>"]
  by (auto simp: trigger_checks_def)


section \<open>Change analyzer: results\<close>

lemma set_set_add: "set (set_add xs x) = insert x (set xs)"
  by (auto simp: set_add_def)

lemma commit_step_types:
  "set (changeTypes (commit_step a c)) = set (changeTypes a) \<union> commit_evidence (commit_message c)"
  by (auto simp: commit_step_def commit_evidence_def Let_def set_set_add)

lemma label_step_types:
  "set (changeTypes (label_step a l)) = set (changeTypes a) \<union> label_evidence l"
  by (auto simp: label_step_def label_evidence_def Let_def set_set_add)

lemma diff_step_types: "changeTypes (diff_step a d) = changeTypes a"
  by (simp add: diff_step_def split: option.split)

lemma commit_step_agree: "flags_agree a \<Longrightarrow> flags_agree (commit_step a c)"
  by (simp add: flags_agree_def commit_step_def Let_def set_set_add)

lemma label_step_agree: "flags_agree a \<Longrightarrow> flags_agree (label_step a l)"
  by (simp add: flags_agree_def label_step_def Let_def set_set_add)

lemma diff_step_agree: "flags_agree a \<Longrightarrow> flags_agree (diff_step a d)"
  by (simp add: flags_agree_def diff_step_def split: option.split)

lemma foldl_commit_types:
  "set (changeTypes (foldl commit_step a cs)) =
     set (changeTypes a) \<union> (\<Union>c \<in> set cs. commit_evidence (commit_message c))"
  by (induction cs arbitrary: a) (auto simp: commit_step_types)

lemma foldl_label_types:
  "set (changeTypes (foldl label_step a ls)) =
     set (changeTypes a) \<union> (\<Union>l \<in> set ls. label_evidence l)"
  by (induction ls arbitrary: a) (auto simp: label_step_types)

lemma foldl_diff_types: "changeTypes (foldl diff_step a ds) = changeTypes a"
  by (induction ds arbitrary: a) (simp_all add: diff_step_types)

lemma foldl_commit_agree: "flags_agree a \<Longrightarrow> flags_agree (foldl commit_step a cs)"
  by (induction cs arbitrary: a) (simp_all add: commit_step_agree)

lemma foldl_label_agree: "flags_agree a \<Longrightarrow> flags_agree (foldl label_step a ls)"
  by (induction ls arbitrary: a) (simp_all add: label_step_agree)

lemma foldl_diff_agree: "flags_agree a \<Longrightarrow> flags_agree (foldl diff_step a ds)"
  by (induction ds arbitrary: a) (simp_all add: diff_step_agree)

lemma commit_step_labels: "a_labels (commit_step a c) = a_labels a"
  by (simp add: commit_step_def Let_def)

lemma foldl_commit_labels: "a_labels (foldl commit_step a cs) = a_labels a"
  by (induction cs arbitrary: a) (simp_all add: commit_step_labels)

text \<open>The collected change types are the union of the evidence of every commit and label.\<close>

lemma analyzeChanges_types:
  "set (changeTypes (analyzeChanges pr diff commits)) =
     (\<Union>c \<in> set (commits_or_empty commits). commit_evidence (commit_message c)) \<union>
     (\<Union>l \<in> set (labels_or_empty (pr_label_names pr)). label_evidence l)"
  by (simp add: analyzeChanges_def Let_def foldl_diff_types foldl_label_types foldl_commit_types
      foldl_commit_labels split: option.split)

lemma analyzeChanges_agree: "flags_agree (analyzeChanges pr diff commits)"
proof -
  have "flags_agree \<lparr>a_title = t, a_body = b, a_labels = ls, baseBranch = bb, headBranch = hb,
      a_author = au, createdAt = ca, mergedAt = ma, filesChanged = [], changeTypes = [],
      isBreakingChange = False, isBugfix = False, isFeature = False, isChore = False\<rparr>"
    for t b ls bb hb au ca ma
    by (simp add: flags_agree_def)
  then show ?thesis
    by (simp add: analyzeChanges_def Let_def foldl_commit_agree foldl_label_agree foldl_diff_agree
        split: option.split)
qed

lemma step_keeps_flags:
  "(isBreakingChange a \<longrightarrow> isBreakingChange (commit_step a c) \<and> isBreakingChange (label_step a l) \<and>
      isBreakingChange (diff_step a d)) \<and>
   (isFeature a \<longrightarrow> isFeature (commit_step a c) \<and> isFeature (label_step a l) \<and>
      isFeature (diff_step a d)) \<and>
   (isBugfix a \<longrightarrow> isBugfix (commit_step a c) \<and> isBugfix (label_step a l) \<and>
      isBugfix (diff_step a d)) \<and>
   (isChore a \<longrightarrow> isChore (commit_step a c) \<and> isChore (label_step a l) \<and>
      isChore (diff_step a d))"
  by (simp add: commit_step_def label_step_def diff_step_def Let_def split: option.split)

text \<open>
  C7. The four flags and the set of change types of an analysis depend only on which
  commit messages and which label names are present: two runs whose commit lists carry
  the same messages and whose pull requests carry the same label names (in any order,
  with any repetition, whatever the rest of the input) agree on every flag and on the
  set of change types. No step of the analysis (a commit, a label, a diff line) resets
  a flag that is set.
\<close>

theorem analyzeChanges_order_invariant:
  assumes "commit_message ` set (commits_or_empty commits) =
           commit_message ` set (commits_or_empty commits')"
    and "set (labels_or_empty (pr_label_names pr)) = set (labels_or_empty (pr_label_names pr'))"
  shows "isBreakingChange (analyzeChanges pr diff commits) =
           isBreakingChange (analyzeChanges pr' diff' commits') \<and>
         isFeature (analyzeChanges pr diff commits) = isFeature (analyzeChanges pr' diff' commits') \<and>
         isBugfix (analyzeChanges pr diff commits) = isBugfix (analyzeChanges pr' diff' commits') \<and>
         isChore (analyzeChanges pr diff commits) = isChore (analyzeChanges pr' diff' commits') \<and>
         set (changeTypes (analyzeChanges pr diff commits)) =
           set (changeTypes (analyzeChanges pr' diff' commits')) \<and>
         (isBreakingChange a \<longrightarrow> isBreakingChange (commit_step a c) \<and>
            isBreakingChange (label_step a l) \<and> isBreakingChange (diff_step a d)) \<and>
         (isFeature a \<longrightarrow> isFeature (commit_step a c) \<and> isFeature (label_step a l) \<and>
            isFeature (diff_step a d)) \<and>
         (isBugfix a \<longrightarrow> isBugfix (commit_step a c) \<and> isBugfix (label_step a l) \<and>
            isBugfix (diff_step a d)) \<and>
         (isChore a \<longrightarrow> isChore (commit_step a c) \<and> isChore (label_step a l) \<and>
            isChore (diff_step a d))"
proof -
  have "(\<Union>x \<in> set (commits_or_empty commits). commit_evidence (commit_message x)) =
        (\<Union>m \<in> commit_message ` set (commits_or_empty commits). commit_evidence m)"
    by simp
  also have "\<dots> = (\<Union>m \<in> commit_message ` set (commits_or_empty commits'). commit_evidence m)"
    using assms(1) by simp
  also have "\<dots> = (\<Union>x \<in> set (commits_or_empty commits'). commit_evidence (commit_message x))"
    by simp
  finally have types: "set (changeTypes (analyzeChanges pr diff commits)) =
      set (changeTypes (analyzeChanges pr' diff' commits'))"
    using assms(2) by (simp add: analyzeChanges_types)
  have flags: "flags_agree (analyzeChanges pr diff commits)"
      "flags_agree (analyzeChanges pr' diff' commits')"
    by (rule analyzeChanges_agree)+
  from types flags step_keeps_flags [of a c l d] show ?thesis
    unfolding flags_agree_def by simp
qed


lemmas analyzer_eval = analyzeChanges_def commit_step_def label_step_def diff_step_def
  commits_or_empty_def labels_or_empty_def or_else_def set_add_def toLowerCase_def
  toLowerChar_def pr_with_labels_def commit_with_def Let_def

theorem analyzeChanges_order_invariant_witness:
  "commit_message ` set (commits_or_empty (Some [commit_with ''fix: a'', commit_with ''Feat!: b''])) =
   commit_message ` set (commits_or_empty (Some [commit_with ''Feat!: b'', commit_with ''fix: a''])) \<and>
   set (labels_or_empty (pr_label_names (pr_with_labels [''Bug'', ''docs'']))) =
   set (labels_or_empty (pr_label_names (pr_with_labels [''docs'', ''Bug'']))) \<and>
   changeTypes (analyzeChanges (pr_with_labels [''Bug'', ''docs'']) None
      (Some [commit_with ''fix: a'', commit_with ''Feat!: b''])) =
     [''bugfix'', ''breaking'', ''feature''] \<and>
   changeTypes (analyzeChanges (pr_with_labels [''docs'', ''Bug'']) None
      (Some [commit_with ''Feat!: b'', commit_with ''fix: a''])) =
     [''breaking'', ''feature'', ''bugfix''] \<and>
   set (changeTypes (analyzeChanges (pr_with_labels [''Bug'', ''docs'']) None
      (Some [commit_with ''fix: a'', commit_with ''Feat!: b'']))) =
   set (changeTypes (analyzeChanges (pr_with_labels [''docs'', ''Bug'']) None
      (Some [commit_with ''Feat!: b'', commit_with ''fix: a'']))) \<and>
   isFeature (analyzeChanges (pr_with_labels [''feature'']) None (Some [])) \<and>
   isFeature (commit_step (analyzeChanges (pr_with_labels [''feature'']) None (Some []))
      (commit_with ''fix: typo'')) \<and>
   isFeature (label_step (analyzeChanges (pr_with_labels [''feature'']) None (Some [])) ''bug'') \<and>
   isFeature (diff_step (analyzeChanges (pr_with_labels [''feature'']) None (Some []))
      ''diff --git a/x b/x'')"
proof -
  have c: "commit_message ` set (commits_or_empty (Some [commit_with ''fix: a'', commit_with ''Feat!: b''])) =
     commit_message ` set (commits_or_empty (Some [commit_with ''Feat!: b'', commit_with ''fix: a'']))"
    by (auto simp: commits_or_empty_def)
  have l: "set (labels_or_empty (pr_label_names (pr_with_labels [''Bug'', ''docs'']))) =
     set (labels_or_empty (pr_label_names (pr_with_labels [''docs'', ''Bug''])))"
    by (auto simp: labels_or_empty_def pr_with_labels_def)
  have t1: "changeTypes (analyzeChanges (pr_with_labels [''Bug'', ''docs'']) None
      (Some [commit_with ''fix: a'', commit_with ''Feat!: b''])) =
      [''bugfix'', ''breaking'', ''feature'']"
    by (simp add: analyzer_eval)
  have t2: "changeTypes (analyzeChanges (pr_with_labels [''docs'', ''Bug'']) None
      (Some [commit_with ''Feat!: b'', commit_with ''fix: a''])) =
      [''breaking'', ''feature'', ''bugfix'']"
    by (simp add: analyzer_eval)
  have f: "isFeature (analyzeChanges (pr_with_labels [''feature'']) None (Some []))"
    by (simp add: analyzer_eval)
  from analyzeChanges_order_invariant
    [OF c l, where diff = None and diff' = None
       and a = "analyzeChanges (pr_with_labels [''feature'']) None (Some [])"
       and c = "commit_with ''fix: typo''" and l = "''bug''" and d = "''diff --git a/x b/x''"]
    c l t1 t2 f
  show ?thesis by blast
qed

lemma analyzeChanges_isBugfix_labels:
  "isBugfix (analyzeChanges prd diff (Some [])) \<longleftrightarrow>
     (\<exists>l \<in> set (labels_or_empty (pr_label_names prd)).
        str_includes (toLowerCase l) ''bug'' \<or> str_includes (toLowerCase l) ''fix'')"
proof -
  have "isBugfix (analyzeChanges prd diff (Some [])) \<longleftrightarrow>
      ''bugfix'' \<in> set (changeTypes (analyzeChanges prd diff (Some [])))"
    using analyzeChanges_agree [of prd diff "Some []"] by (simp add: flags_agree_def)
  also have "\<dots> \<longleftrightarrow>
      (\<exists>l \<in> set (labels_or_empty (pr_label_names prd)). ''bugfix'' \<in> label_evidence l)"
    by (simp add: analyzeChanges_types commits_or_empty_def)
  also have "\<dots> \<longleftrightarrow> (\<exists>l \<in> set (labels_or_empty (pr_label_names prd)).
        str_includes (toLowerCase l) ''bug'' \<or> str_includes (toLowerCase l) ''fix'')"
    by (auto simp: label_evidence_def Let_def split: if_splits)
  finally show ?thesis .
qed


section \<open>Version deriver: results\<close>

lemmas semver_eval = semver_valid_def main_version_def numeric_identifier_def
  prerelease_identifier_def build_identifier_def int_of_digits_def digit_value_def
  is_digit_def is_ident_char_def trim_def is_space_def

lemma cleanVersion_v: "valid s \<Longrightarrow> cleanVersion valid (''v'' @ s) = s"
  by (simp add: cleanVersion_def)

lemma cleanVersion_release: "valid s \<Longrightarrow> cleanVersion valid (''release-'' @ s) = s"
  by (simp add: cleanVersion_def)

lemma cleanVersion_invalid:
  "\<not> valid (strip_first_prefix [''v'', ''release-'', ''version-''] s) \<Longrightarrow>
   cleanVersion valid s = ''1.0.0''"
  by (simp add: cleanVersion_def)

text \<open>A tag that starts with \<^verbatim>\<open>version-\<close> starts with \<^verbatim>\<open>v\<close>, which is tried first.\<close>

lemma cleanVersion_version_strips_v:
  "cleanVersion valid (''version-'' @ s) =
     (if valid (''ersion-'' @ s) then ''ersion-'' @ s else ''1.0.0'')"
  by (simp add: cleanVersion_def)

lemma cleanVersion_default: "cleanVersion valid ''1.0.0'' = ''1.0.0''"
  by (simp add: cleanVersion_def)

text \<open>
  C2. The claim asks for \<open>cleanVersion (p @ X.Y.Z) = X.Y.Z\<close> for each of the prefixes
  \<^verbatim>\<open>v\<close>, \<^verbatim>\<open>release-\<close> and \<^verbatim>\<open>version-\<close>. On the tag \<^verbatim>\<open>version-1.2.3\<close> the
  code answers \<^verbatim>\<open>1.0.0\<close>, although \<^verbatim>\<open>1.2.3\<close> is a valid version: only the
  \<^verbatim>\<open>v\<close> is stripped, and whatever the validity test says of the rest, the result is not
  \<^verbatim>\<open>1.2.3\<close>.
\<close>

theorem cleanVersion_version_prefix_lost:
  "cleanVersion semver_valid ''version-1.2.3'' = ''1.0.0'' \<and> semver_valid ''1.2.3'' \<and>
   (\<forall>valid. cleanVersion valid ''version-1.2.3'' \<noteq> ''1.2.3'')"
  by (simp add: cleanVersion_def Let_def semver_eval)

text \<open>
  C4. In an environment that is not the production one, and when the short commit id can
  be read, the version is derived without error: the previous version is the latest tag
  as found, the new version is the cleaned previous version followed by \<^verbatim>\<open>-dev.\<close> and
  the short commit id, whatever the validity test would say of it, and the tag name is the
  prefix followed by the new version. When there is no tag, the previous version is
  \<^verbatim>\<open>1.0.0\<close> and the new version is \<^verbatim>\<open>1.0.0-dev.\<close> followed by the short commit id.
\<close>

theorem generateVersion_development:
  assumes "\<not> isProductionEnvironment (environment config)"
    and "rev_parse_short git = Some out"
  shows "\<exists>v. generateVersion valid incrementVersion config git versionIncrement = Inr v \<and>
             previousVersion v = getLatestTag (describe_exit git) (describe_output git) \<and>
             cleanPreviousVersion v = cleanVersion valid (previousVersion v) \<and>
             newVersion v = cleanPreviousVersion v @ ''-dev.'' @ trim out \<and>
             tagName v = versionPrefix config @ newVersion v \<and>
             (describe_exit git \<noteq> 0 \<or> trim (describe_output git) = [] \<longrightarrow>
                previousVersion v = ''1.0.0'' \<and> newVersion v = ''1.0.0-dev.'' @ trim out)"
  using assms
  by (auto simp: generateVersion_def getShortCommit_def Let_def getLatestTag_def cleanVersion_default)

theorem generateVersion_development_witness:
  "\<not> isProductionEnvironment ''DEV'' \<and>
   generateVersion semver_valid (\<lambda>v i. v)
     \<lparr>versionStrategy = ''patch'', versionPrefix = ''v'', environment = ''DEV''\<rparr>
     \<lparr>describe_exit = 128, describe_output = [], rev_parse_short = Some (''abc1234'' @ [nl])\<rparr> None
   = Inr \<lparr>newVersion = ''1.0.0-dev.abc1234'', previousVersion = ''1.0.0'',
          tagName = ''v1.0.0-dev.abc1234'', cleanPreviousVersion = ''1.0.0''\<rparr>"
proof -
  have env: "\<not> isProductionEnvironment
      (environment \<lparr>versionStrategy = ''patch'', versionPrefix = ''v'', environment = ''DEV''\<rparr>)"
    by (simp add: isProductionEnvironment_def toLowerCase_def toLowerChar_def)
  have out: "rev_parse_short \<lparr>describe_exit = 128, describe_output = [],
      rev_parse_short = Some (''abc1234'' @ [nl])\<rparr> = Some (''abc1234'' @ [nl])"
    by simp
  from generateVersion_development [OF env out, of semver_valid "\<lambda>v i. v" None]
  obtain v where v: "generateVersion semver_valid (\<lambda>v i. v)
     \<lparr>versionStrategy = ''patch'', versionPrefix = ''v'', environment = ''DEV''\<rparr>
     \<lparr>describe_exit = 128, describe_output = [], rev_parse_short = Some (''abc1234'' @ [nl])\<rparr> None
     = Inr v"
    and "previousVersion v = ''1.0.0''"
    and "newVersion v = ''1.0.0-dev.'' @ trim (''abc1234'' @ [nl])"
    and "cleanPreviousVersion v = cleanVersion semver_valid (previousVersion v)"
    and "tagName v = ''v'' @ newVersion v"
    by auto
  then have "v = \<lparr>newVersion = ''1.0.0-dev.abc1234'', previousVersion = ''1.0.0'',
          tagName = ''v1.0.0-dev.abc1234'', cleanPreviousVersion = ''1.0.0''\<rparr>"
    by (cases v) (simp add: trim_def is_space_def cleanVersion_default)
  with v env show ?thesis
    by simp
qed


section \<open>Trigger label against label classification\<close>

text \<open>
  C9. When every earlier check passes and a trigger label is configured, the run is
  granted exactly when some label name of the pull request is equal, character by
  character, to the trigger label (otherwise the reason names the missing label); the
  change analyzer, by contrast, lower-cases each label name and looks for substrings.
\<close>

theorem trigger_label_exact_match:
  assumes "eventName ctx = ''pull_request''"
    and "payload_pull_request ctx = Some pr"
    and "pr_merged pr"
    and "pr_base_ref pr = targetBranch config \<or>
         pr_base_ref pr \<in> {''main'', ''master'', ''dev'', ''development''}"
    and "triggerLabel config \<noteq> []"
  shows "(\<exists>r. checkTriggerConditions config ctx = Inr r \<and>
              (run r \<longleftrightarrow> triggerLabel config \<in> set (pr_labels pr)) \<and>
              (\<not> run r \<longrightarrow> reason r = ''Missing required label: '' @ triggerLabel config)) \<and>
         (isBugfix (analyzeChanges prd diff (Some [])) \<longleftrightarrow>
            (\<exists>l \<in> set (labels_or_empty (pr_label_names prd)).
               str_includes (toLowerCase l) ''bug'' \<or> str_includes (toLowerCase l) ''fix''))"
  using assms
  by (simp add: checkTriggerConditions_def list_ex_eq_member analyzeChanges_isBugfix_labels)

theorem trigger_label_exact_match_witness:
  "checkTriggerConditions \<lparr>triggerLabel = ''release'', targetBranch = ''main''\<rparr>
     \<lparr>eventName = ''pull_request'',
      payload_pull_request = Some \<lparr>pr_merged = True, pr_base_ref = ''main'', pr_labels = [''Release'']\<rparr>\<rparr>
   = Inr \<lparr>run = False, reason = ''Missing required label: release''\<rparr> \<and>
   isBugfix (analyzeChanges (pr_with_labels [''Hot-FIX'']) None (Some []))"
proof -
  have "\<exists>r. checkTriggerConditions \<lparr>triggerLabel = ''release'', targetBranch = ''main''\<rparr>
     \<lparr>eventName = ''pull_request'',
      payload_pull_request = Some \<lparr>pr_merged = True, pr_base_ref = ''main'', pr_labels = [''Release'']\<rparr>\<rparr> = Inr r \<and>
      (run r \<longleftrightarrow> ''release'' \<in> set [''Release'']) \<and>
      (\<not> run r \<longrightarrow> reason r = ''Missing required label: '' @ ''release'')"
   and "isBugfix (analyzeChanges (pr_with_labels [''Hot-FIX'']) None (Some [])) \<longleftrightarrow>
        (\<exists>l \<in> set (labels_or_empty (pr_label_names (pr_with_labels [''Hot-FIX'']))).
               str_includes (toLowerCase l) ''bug'' \<or> str_includes (toLowerCase l) ''fix'')"
    using trigger_label_exact_match
      [of "\<lparr>eventName = ''pull_request'',
      payload_pull_request = Some \<lparr>pr_merged = True, pr_base_ref = ''main'', pr_labels = [''Release'']\<rparr>\<rparr>"
          "\<lparr>pr_merged = True, pr_base_ref = ''main'', pr_labels = [''Release'']\<rparr>"
          "\<lparr>triggerLabel = ''release'', targetBranch = ''main''\<rparr>"
          "pr_with_labels [''Hot-FIX'']" None]
    by simp_all
  then show ?thesis
    by (auto simp: labels_or_empty_def pr_with_labels_def toLowerCase_def toLowerChar_def)
qed


section \<open>Template path: results\<close>

lemma publicChanges_no_nl: "nl \<notin> set (publicChanges a)"
  by (simp add: publicChanges_def)

lemma split_six_lines:
  "nl \<notin> set l1 \<Longrightarrow> nl \<notin> set l3 \<Longrightarrow> nl \<notin> set l4 \<Longrightarrow> nl \<notin> set l6 \<Longrightarrow>
   split_nl (l1 @ [nl, nl] @ l3 @ [nl] @ l4 @ [nl, nl] @ l6 @ [nl] @ rest) =
     [l1, [], l3, l4, [], l6] @ split_nl rest"
  by (simp add: split_on_append_sep split_on_id)

text \<open>The first six lines of the release notes of the template, for a title on one line.\<close>

lemma template_lines:
  assumes "nl \<notin> set (title_line config versionInfo)"
  shows "take 6 (split_nl (releaseNotes (generateFromTemplate config prAnalysis versionInfo))) =
     [''## '' @ title_line config versionInfo, [], ''### Public'',
      publicChanges (pa_analysis prAnalysis), [], ''### Internal'']"
proof -
  let ?rest = "join_nl (map (\<lambda>change. ''- '' @ change)
      (internalChanges config (pa_commits prAnalysis)))"
  have "nl \<notin> set (''## '' @ title_line config versionInfo)"
    using assms by simp
  moreover have "nl \<notin> set ''### Public''" "nl \<notin> set ''### Internal''"
    by simp_all
  ultimately have "split_nl ((''## '' @ title_line config versionInfo) @ [nl, nl] @
      ''### Public'' @ [nl] @ publicChanges (pa_analysis prAnalysis) @ [nl, nl] @
      ''### Internal'' @ [nl] @ ?rest) =
      [''## '' @ title_line config versionInfo, [], ''### Public'',
       publicChanges (pa_analysis prAnalysis), [], ''### Internal''] @ split_nl ?rest"
    using publicChanges_no_nl [of "pa_analysis prAnalysis"] by (intro split_six_lines)
  then show ?thesis
    by (simp add: generateFromTemplate_def)
qed

text \<open>
  C5. The public summary line of the template is the message of the first rule that
  applies, in the order breaking, feature, bugfix, and the generic message when none
  applies; it is always one of the four messages. With both the breaking and the feature
  flag set it is the breaking-changes message and not the features message. It is the
  text between \<^verbatim>\<open>### Public\<close> and \<^verbatim>\<open>### Internal\<close> in the release notes: when
  the title (version, build number, environment) is on one line, it is the fourth line,
  right after the \<^verbatim>\<open>### Public\<close> line.
\<close>

theorem publicChanges_priority:
  "publicChanges a = first_rule (public_rules a) ''General improvements and bug fixes'' \<and>
   publicChanges a \<in> {''Breaking changes - please review migration notes'',
                      ''New features and enhancements'',
                      ''Bug fixes and stability improvements'',
                      ''General improvements and bug fixes''} \<and>
   (isBreakingChange a \<and> isFeature a \<longrightarrow>
      publicChanges a = ''Breaking changes - please review migration notes'' \<and>
      publicChanges a \<noteq> ''New features and enhancements'') \<and>
   releaseNotes (generateFromTemplate config \<lparr>pa_analysis = a, pa_commits = commits\<rparr> versionInfo) =
     ''## '' @ title_line config versionInfo @ [nl, nl] @
     ''### Public'' @ [nl] @ publicChanges a @ [nl, nl] @
     ''### Internal'' @ [nl] @
     join_nl (map (\<lambda>change. ''- '' @ change) (internalChanges config commits)) \<and>
   (nl \<notin> set (title_line config versionInfo) \<longrightarrow>
      take 6 (split_nl (releaseNotes
        (generateFromTemplate config \<lparr>pa_analysis = a, pa_commits = commits\<rparr> versionInfo))) =
      [''## '' @ title_line config versionInfo, [], ''### Public'', publicChanges a, [],
       ''### Internal''])"
proof (intro conjI impI)
  assume "nl \<notin> set (title_line config versionInfo)"
  from template_lines [OF this, of "\<lparr>pa_analysis = a, pa_commits = commits\<rparr>"]
  show "take 6 (split_nl (releaseNotes
        (generateFromTemplate config \<lparr>pa_analysis = a, pa_commits = commits\<rparr> versionInfo))) =
      [''## '' @ title_line config versionInfo, [], ''### Public'', publicChanges a, [],
       ''### Internal'']"
    by simp
qed (simp_all add: publicChanges_def public_rules_def generateFromTemplate_def)

theorem publicChanges_priority_witness:
  "isBreakingChange (analyzeChanges (pr_with_labels [''feature'']) None
      (Some [commit_with ''feat!: drop v1 api''])) \<and>
   isFeature (analyzeChanges (pr_with_labels [''feature'']) None
      (Some [commit_with ''feat!: drop v1 api''])) \<and>
   nl \<notin> set (title_line
      \<lparr>rn_environment = ''PROD'', maxCommitsFallback = 10, includeCommitLinks = False\<rparr>
      \<lparr>newVersion = ''2.0.0'', previousVersion = ''v1.4.2'', tagName = ''v2.0.0'',
       cleanPreviousVersion = ''1.4.2'', buildNumber = ''20240101.1200''\<rparr>) \<and>
   take 6 (split_nl (releaseNotes (generateFromTemplate
      \<lparr>rn_environment = ''PROD'', maxCommitsFallback = 10, includeCommitLinks = False\<rparr>
      \<lparr>pa_analysis = analyzeChanges (pr_with_labels [''feature'']) None
         (Some [commit_with ''feat!: drop v1 api'']),
       pa_commits = Some [commit_with ''feat!: drop v1 api'']\<rparr>
      \<lparr>newVersion = ''2.0.0'', previousVersion = ''v1.4.2'', tagName = ''v2.0.0'',
       cleanPreviousVersion = ''1.4.2'', buildNumber = ''20240101.1200''\<rparr>))) =
   [''## v2.0.0 - 20240101.1200 [PROD]'', [], ''### Public'',
    ''Breaking changes - please review migration notes'', [], ''### Internal'']"
proof -
  have b: "isBreakingChange (analyzeChanges (pr_with_labels [''feature'']) None
      (Some [commit_with ''feat!: drop v1 api'']))"
    by (simp add: analyzer_eval)
  have f: "isFeature (analyzeChanges (pr_with_labels [''feature'']) None
      (Some [commit_with ''feat!: drop v1 api'']))"
    by (simp add: analyzer_eval)
  have t: "title_line
      \<lparr>rn_environment = ''PROD'', maxCommitsFallback = 10, includeCommitLinks = False\<rparr>
      \<lparr>newVersion = ''2.0.0'', previousVersion = ''v1.4.2'', tagName = ''v2.0.0'',
       cleanPreviousVersion = ''1.4.2'', buildNumber = ''20240101.1200''\<rparr> =
      ''v2.0.0 - 20240101.1200 [PROD]''"
    by (simp add: title_line_def)
  have n: "nl \<notin> set (title_line
      \<lparr>rn_environment = ''PROD'', maxCommitsFallback = 10, includeCommitLinks = False\<rparr>
      \<lparr>newVersion = ''2.0.0'', previousVersion = ''v1.4.2'', tagName = ''v2.0.0'',
       cleanPreviousVersion = ''1.4.2'', buildNumber = ''20240101.1200''\<rparr>)"
    by (simp add: title_line_def)
  note inst = publicChanges_priority
    [of "analyzeChanges (pr_with_labels [''feature'']) None (Some [commit_with ''feat!: drop v1 api''])"
        "\<lparr>rn_environment = ''PROD'', maxCommitsFallback = 10, includeCommitLinks = False\<rparr>"
        "Some [commit_with ''feat!: drop v1 api'']"
        "\<lparr>newVersion = ''2.0.0'', previousVersion = ''v1.4.2'', tagName = ''v2.0.0'',
          cleanPreviousVersion = ''1.4.2'', buildNumber = ''20240101.1200''\<rparr>"]
  from inst b f have p: "publicChanges (analyzeChanges (pr_with_labels [''feature'']) None
      (Some [commit_with ''feat!: drop v1 api''])) =
      ''Breaking changes - please review migration notes''"
    by blast
  from inst n have "take 6 (split_nl (releaseNotes (generateFromTemplate
      \<lparr>rn_environment = ''PROD'', maxCommitsFallback = 10, includeCommitLinks = False\<rparr>
      \<lparr>pa_analysis = analyzeChanges (pr_with_labels [''feature'']) None
         (Some [commit_with ''feat!: drop v1 api'']),
       pa_commits = Some [commit_with ''feat!: drop v1 api'']\<rparr>
      \<lparr>newVersion = ''2.0.0'', previousVersion = ''v1.4.2'', tagName = ''v2.0.0'',
       cleanPreviousVersion = ''1.4.2'', buildNumber = ''20240101.1200''\<rparr>))) =
      [''## '' @ title_line
         \<lparr>rn_environment = ''PROD'', maxCommitsFallback = 10, includeCommitLinks = False\<rparr>
         \<lparr>newVersion = ''2.0.0'', previousVersion = ''v1.4.2'', tagName = ''v2.0.0'',
          cleanPreviousVersion = ''1.4.2'', buildNumber = ''20240101.1200''\<rparr>,
       [], ''### Public'',
       publicChanges (analyzeChanges (pr_with_labels [''feature'']) None
         (Some [commit_with ''feat!: drop v1 api''])),
       [], ''### Internal'']"
    by blast
  then have "take 6 (split_nl (releaseNotes (generateFromTemplate
      \<lparr>rn_environment = ''PROD'', maxCommitsFallback = 10, includeCommitLinks = False\<rparr>
      \<lparr>pa_analysis = analyzeChanges (pr_with_labels [''feature'']) None
         (Some [commit_with ''feat!: drop v1 api'']),
       pa_commits = Some [commit_with ''feat!: drop v1 api'']\<rparr>
      \<lparr>newVersion = ''2.0.0'', previousVersion = ''v1.4.2'', tagName = ''v2.0.0'',
       cleanPreviousVersion = ''1.4.2'', buildNumber = ''20240101.1200''\<rparr>))) =
      [''## v2.0.0 - 20240101.1200 [PROD]'', [], ''### Public'',
       ''Breaking changes - please review migration notes'', [], ''### Internal'']"
    by (simp only: p t) simp
  with b f n show ?thesis
    by blast
qed

lemma slackCommits_some:
  "slackCommits (Some cs) = map (\<lambda>c. first_line (commit_message c)) (take 3 cs)"
  by (simp add: slackCommits_def slice0_def)

lemma slackCommits_none: "slackCommits None = [''Various improvements'']"
  by (simp add: slackCommits_def)

text \<open>
  C6. The claim asks for a generic line in the notification message whenever no commit
  is available, the empty commit list included. For the empty list the message ends
  after the \<^verbatim>\<open>*Changes:*\<close> line: no bullet and no generic line. The generic line
  appears only when the commit list is absent, although for the internal section of the
  release notes the empty list does give the generic line.
\<close>

theorem slackMessage_empty_commit_list:
  "slackMessage (generateFromTemplate config \<lparr>pa_analysis = a, pa_commits = Some []\<rparr> versionInfo) =
     rocket @ '' *'' @ title_line config versionInfo @ ''*'' @ [nl, nl] @ ''*Changes:*'' @ [nl] \<and>
   slackMessage (generateFromTemplate config \<lparr>pa_analysis = a, pa_commits = None\<rparr> versionInfo) =
     rocket @ '' *'' @ title_line config versionInfo @ ''*'' @ [nl, nl] @ ''*Changes:*'' @ [nl] @
     bullet @ '' Various improvements'' \<and>
   internalChanges config (Some []) = [''Various code improvements and maintenance'']"
  by (simp add: generateFromTemplate_def slackCommits_def slice0_def internalChanges_def)


section \<open>Changelog insertion: results\<close>

lemma findInsertionPoint_from_bounds:
  "i \<le> findInsertionPoint_from i ls \<and> findInsertionPoint_from i ls \<le> i + length ls"
proof (induction ls arbitrary: i)
  case Nil
  then show ?case by simp
next
  case (Cons l ls)
  from Cons [of "Suc i"] show ?case by (simp add: Let_def)
qed

lemma findInsertionPoint_le_length: "findInsertionPoint ls \<le> length ls"
  using findInsertionPoint_from_bounds [of 0 ls] by (simp add: findInsertionPoint_def)

lemma findInsertionPoint_from_heading:
  "j < length ls \<Longrightarrow> is_version_heading (trim (ls ! j)) \<Longrightarrow> findInsertionPoint_from i ls \<le> i + j"
proof (induction ls arbitrary: i j)
  case Nil
  then show ?case by simp
next
  case (Cons l ls)
  show ?case
  proof (cases j)
    case 0
    with Cons.prems show ?thesis by (simp add: Let_def)
  next
    case (Suc j')
    with Cons.prems have "findInsertionPoint_from (Suc i) ls \<le> Suc i + j'"
      by (intro Cons.IH) simp_all
    with Suc show ?thesis by (simp add: Let_def)
  qed
qed

lemma insertEntry_lines:
  "split_nl (insertEntry currentContent newEntry) =
     take (findInsertionPoint (split_nl currentContent)) (split_nl currentContent) @
     split_nl newEntry @
     drop (findInsertionPoint (split_nl currentContent)) (split_nl currentContent)"
proof -
  let ?L = "split_nl currentContent"
  let ?k = "findInsertionPoint ?L"
  have no_nl: "\<forall>l \<in> set ?L. nl \<notin> set l"
    by (simp add: split_on_no_sep)
  have t: "concat (map split_nl (take ?k ?L)) = take ?k ?L"
    using no_nl by (intro concat_split_lines) (auto dest: in_set_takeD)
  have d: "concat (map split_nl (drop ?k ?L)) = drop ?k ?L"
    using no_nl by (intro concat_split_lines) (auto dest: in_set_dropD)
  have "split_nl (insertEntry currentContent newEntry) =
      concat (map split_nl (take ?k ?L @ [newEntry] @ drop ?k ?L))"
    by (simp add: insertEntry_def Let_def split_join)
  also have "\<dots> = take ?k ?L @ split_nl newEntry @ drop ?k ?L"
    using t d by simp
  finally show ?thesis .
qed

lemma insertEntry_text:
  "\<exists>pre post. currentContent = pre @ post \<and>
     (insertEntry currentContent newEntry = pre @ newEntry @ nl # post \<or>
      insertEntry currentContent newEntry = pre @ nl # newEntry @ post)"
proof -
  let ?L = "split_nl currentContent"
  let ?k = "findInsertionPoint ?L"
  have L: "?L \<noteq> []" by (rule split_on_not_Nil)
  have k: "?k \<le> length ?L" by (rule findInsertionPoint_le_length)
  have c: "join_nl ?L = currentContent" by (rule join_split)
  consider (at_start) "?k = 0" | (at_end) "?k = length ?L" | (inside) "0 < ?k" "?k < length ?L"
    using k by linarith
  then show ?thesis
  proof cases
    case at_start
    then have "insertEntry currentContent newEntry = [] @ newEntry @ nl # currentContent"
      using L c join_nl_append [of "[newEntry]" ?L] by (simp add: insertEntry_def Let_def)
    then show ?thesis by blast
  next
    case at_end
    then have "insertEntry currentContent newEntry = currentContent @ nl # newEntry @ []"
      using L c join_nl_append [of ?L "[newEntry]"] by (simp add: insertEntry_def Let_def)
    then show ?thesis by (metis append_Nil2)
  next
    case inside
    then have t: "take ?k ?L \<noteq> []" and d: "drop ?k ?L \<noteq> []"
      by auto
    have "join_nl (take ?k ?L @ drop ?k ?L) = join_nl (take ?k ?L) @ nl # join_nl (drop ?k ?L)"
      using t d by (rule join_nl_append)
    then have split: "currentContent = (join_nl (take ?k ?L) @ [nl]) @ join_nl (drop ?k ?L)"
      using c by simp
    have "join_nl (take ?k ?L @ ([newEntry] @ drop ?k ?L)) =
        join_nl (take ?k ?L) @ nl # join_nl ([newEntry] @ drop ?k ?L)"
      using t by (intro join_nl_append) simp_all
    also have "join_nl ([newEntry] @ drop ?k ?L) = newEntry @ nl # join_nl (drop ?k ?L)"
      using d join_nl_append [of "[newEntry]" "drop ?k ?L"] by simp
    finally have "insertEntry currentContent newEntry =
        (join_nl (take ?k ?L) @ [nl]) @ newEntry @ nl # join_nl (drop ?k ?L)"
      by (simp add: insertEntry_def Let_def)
    with split show ?thesis by blast
  qed
qed

lemmas changelog_eval = findInsertionPoint_def insertEntry_def Let_def trim_def is_space_def
  is_version_heading_def three_numbers_def digits_then_def is_digit_def

text \<open>
  C10. The insertion index lies within the lines of the current content, and the lines
  of the updated content are the lines before the index, then the lines of the new
  entry, then the lines from the index on: every line of the original is kept, unchanged
  and in its place relative to the others. As texts: the current content is cut in two
  at one place and the new entry, with one line break, is put in between.
\<close>

theorem insertEntry_purely_insertive:
  "findInsertionPoint (split_nl currentContent) \<le> length (split_nl currentContent) \<and>
   split_nl (insertEntry currentContent newEntry) =
     take (findInsertionPoint (split_nl currentContent)) (split_nl currentContent) @
     split_nl newEntry @
     drop (findInsertionPoint (split_nl currentContent)) (split_nl currentContent) \<and>
   (\<exists>pre post. currentContent = pre @ post \<and>
      (insertEntry currentContent newEntry = pre @ newEntry @ nl # post \<or>
       insertEntry currentContent newEntry = pre @ nl # newEntry @ post))"
  using findInsertionPoint_le_length insertEntry_lines insertEntry_text by blast

theorem insertEntry_purely_insertive_witness:
  "split_nl (insertEntry (''# Changelog'' @ [nl, nl] @ ''## [1.0.0] - 2024-01-01'' @ [nl] @ ''- first'')
      (''## [1.1.0] - 2024-02-01'' @ [nl] @ ''- second'' @ [nl])) =
   [''# Changelog'', [], ''## [1.1.0] - 2024-02-01'', ''- second'', [],
    ''## [1.0.0] - 2024-01-01'', ''- first'']"
  using insertEntry_purely_insertive
    [of "''# Changelog'' @ [nl, nl] @ ''## [1.0.0] - 2024-01-01'' @ [nl] @ ''- first''"
        "''## [1.1.0] - 2024-02-01'' @ [nl] @ ''- second'' @ [nl]"]
  by (simp add: changelog_eval)

lemma trim_Cons_nonspace:
  "\<not> is_space c \<Longrightarrow> trim (c # s) = c # rev (dropWhile is_space (rev s))"
  by (simp add: trim_def dropWhile_append)

lemma initial_changelog_lines:
  assumes "nl \<notin> set (or_else repo ''Repository'')"
  shows "split_nl (createInitialChangelog repo) =
     [''# Changelog'', [],
      ''All notable changes to '' @ or_else repo ''Repository'' @ '' will be documented in this file.'',
      [],
      ''The format is based on [Keep a Changelog](https://keepachangelog.com/en/1.0.0/),'',
      ''and this project adheres to [Semantic Versioning](https://semver.org/spec/v2.0.0.html).'',
      [], []]"
  using assms
  by (simp add: createInitialChangelog_def Let_def split_on_prepend)

lemma initial_changelog_insertion_point:
  assumes "nl \<notin> set (or_else repo ''Repository'')"
  shows "findInsertionPoint (split_nl (createInitialChangelog repo)) = 8"
  by (simp add: initial_changelog_lines [OF assms] findInsertionPoint_def Let_def
      trim_Cons_nonspace is_space_def is_version_heading_def trim_def)

text \<open>
  C8. If line \<open>i\<close> of the changelog is a version heading (after trimming it matches
  \<^verbatim>\<open>## [1.0.0] - 2024-01-01\<close> and the like), the entry is inserted at an index not
  above \<open>i\<close>: in the updated text the lines of the entry start at that index and the
  heading line comes after all of them. For the changelog made by
  \<^verbatim>\<open>createInitialChangelog\<close> (with a repository name on a single line) the insertion
  index is the number of lines: the entry is appended after the header block, at the end.
\<close>

theorem findInsertionPoint_before_heading:
  "(i < length (split_nl currentContent) \<and>
    is_version_heading (trim (split_nl currentContent ! i)) \<longrightarrow>
      findInsertionPoint (split_nl currentContent) \<le> i \<and>
      (\<forall>j < length (split_nl newEntry).
         split_nl (insertEntry currentContent newEntry) !
           (findInsertionPoint (split_nl currentContent) + j) = split_nl newEntry ! j) \<and>
      split_nl (insertEntry currentContent newEntry) ! (i + length (split_nl newEntry)) =
        split_nl currentContent ! i) \<and>
   (nl \<notin> set (or_else repo ''Repository'') \<longrightarrow>
      findInsertionPoint (split_nl (createInitialChangelog repo)) =
        length (split_nl (createInitialChangelog repo)) \<and>
      insertEntry (createInitialChangelog repo) newEntry =
        createInitialChangelog repo @ nl # newEntry)"
proof (intro conjI impI)
  let ?L = "split_nl currentContent"
  let ?E = "split_nl newEntry"
  let ?k = "findInsertionPoint ?L"
  assume h: "i < length ?L \<and> is_version_heading (trim (?L ! i))"
  then show k: "?k \<le> i"
    using findInsertionPoint_from_heading [of i ?L 0] by (simp add: findInsertionPoint_def)
  have len: "length (take ?k ?L) = ?k"
    using k h by simp
  show "\<forall>j < length ?E. split_nl (insertEntry currentContent newEntry) ! (?k + j) = ?E ! j"
    using len by (simp add: insertEntry_lines nth_append)
  have idx: "i + length ?E - ?k = length ?E + (i - ?k)"
    using k by arith
  have "split_nl (insertEntry currentContent newEntry) ! (i + length ?E) =
      (?E @ drop ?k ?L) ! (i + length ?E - ?k)"
    using len k by (simp add: insertEntry_lines nth_append)
  also have "\<dots> = drop ?k ?L ! (i - ?k)"
    unfolding idx by (rule nth_append_length_plus)
  also have "\<dots> = ?L ! i"
    using k h by simp
  finally show "split_nl (insertEntry currentContent newEntry) ! (i + length ?E) = ?L ! i" .
next
  assume r: "nl \<notin> set (or_else repo ''Repository'')"
  have "length (split_nl (createInitialChangelog repo)) = 8"
    by (simp add: initial_changelog_lines [OF r])
  then show p: "findInsertionPoint (split_nl (createInitialChangelog repo)) =
      length (split_nl (createInitialChangelog repo))"
    by (simp only: initial_changelog_insertion_point [OF r])
  have "insertEntry (createInitialChangelog repo) newEntry =
      join_nl (split_nl (createInitialChangelog repo) @ [newEntry])"
    by (simp add: insertEntry_def Let_def p)
  also have "\<dots> = join_nl (split_nl (createInitialChangelog repo)) @ nl # join_nl [newEntry]"
    by (intro join_nl_append) (simp_all add: split_on_not_Nil)
  finally show "insertEntry (createInitialChangelog repo) newEntry =
      createInitialChangelog repo @ nl # newEntry"
    by (simp add: join_split)
qed

theorem findInsertionPoint_before_heading_witness:
  "2 < length (split_nl (''# Changelog'' @ [nl, nl] @ ''## [1.0.0] - 2024-01-01'' @ [nl] @ ''- first'')) \<and>
   is_version_heading (trim (split_nl (''# Changelog'' @ [nl, nl] @ ''## [1.0.0] - 2024-01-01'' @ [nl] @ ''- first'') ! 2)) \<and>
   findInsertionPoint (split_nl (''# Changelog'' @ [nl, nl] @ ''## [1.0.0] - 2024-01-01'' @ [nl] @ ''- first'')) \<le> 2 \<and>
   split_nl (insertEntry (''# Changelog'' @ [nl, nl] @ ''## [1.0.0] - 2024-01-01'' @ [nl] @ ''- first'')
      (''## [1.1.0] - 2024-02-01'' @ [nl] @ ''- second'' @ [nl])) ! 5 = ''## [1.0.0] - 2024-01-01'' \<and>
   nl \<notin> set (or_else None ''Repository'') \<and>
   insertEntry (createInitialChangelog None) (''## [1.1.0] - 2024-02-01'' @ [nl] @ ''- second'' @ [nl]) =
     createInitialChangelog None @ nl # ''## [1.1.0] - 2024-02-01'' @ [nl] @ ''- second'' @ [nl]"
proof -
  have i: "2 < length (split_nl (''# Changelog'' @ [nl, nl] @ ''## [1.0.0] - 2024-01-01'' @ [nl] @ ''- first'')) \<and>
   is_version_heading (trim (split_nl (''# Changelog'' @ [nl, nl] @ ''## [1.0.0] - 2024-01-01'' @ [nl] @ ''- first'') ! 2))"
    by (simp add: changelog_eval)
  have r: "nl \<notin> set (or_else None ''Repository'')"
    by (simp add: or_else_def)
  have n: "length (split_nl (''## [1.1.0] - 2024-02-01'' @ [nl] @ ''- second'' @ [nl])) = 3"
    by simp
  from findInsertionPoint_before_heading
    [of 2 "''# Changelog'' @ [nl, nl] @ ''## [1.0.0] - 2024-01-01'' @ [nl] @ ''- first''"
        "''## [1.1.0] - 2024-02-01'' @ [nl] @ ''- second'' @ [nl]" None] i r n
  show ?thesis
    by simp
qed


section \<open>Parsing the reply: results\<close>

lemmas parse_eval = parseAIResponse_def block_text_def block_here_def extractSlackSummary_def
  trim_def is_space_def Let_def

lemma generateWithAI_None:
  "generateWithAI reply bn = None \<longleftrightarrow> reply = None \<or> (\<exists>t. reply = Some t \<and> trim t = [])"
  by (cases reply) (auto simp: generateWithAI_def callGeminiAPI_def trim_def)

lemma generateWithAI_Some:
  "trim t \<noteq> [] \<Longrightarrow> generateWithAI (Some t) bn = Some (parseAIResponse (trim t) bn)"
  by (auto simp: generateWithAI_def callGeminiAPI_def trim_def)

lemma parseAIResponse_cases:
  "(block_text ''RELEASE_NOTES_START'' ''RELEASE_NOTES_END'' out = [] \<and>
    block_text ''SLACK_MESSAGE_START'' ''SLACK_MESSAGE_END'' out = [] \<longrightarrow>
      parseAIResponse out bn =
        \<lparr>releaseNotes = replace_all ''BUILD_NUMBER'' bn out,
         slackMessage = replace_all ''BUILD_NUMBER'' bn (extractSlackSummary out bn)\<rparr>) \<and>
   (block_text ''RELEASE_NOTES_START'' ''RELEASE_NOTES_END'' out \<noteq> [] \<and>
    block_text ''SLACK_MESSAGE_START'' ''SLACK_MESSAGE_END'' out = [] \<longrightarrow>
      parseAIResponse out bn =
        \<lparr>releaseNotes = replace_all ''BUILD_NUMBER'' bn
           (block_text ''RELEASE_NOTES_START'' ''RELEASE_NOTES_END'' out),
         slackMessage = replace_all ''BUILD_NUMBER'' bn
           (extractSlackSummary (block_text ''RELEASE_NOTES_START'' ''RELEASE_NOTES_END'' out) bn)\<rparr>) \<and>
   (block_text ''RELEASE_NOTES_START'' ''RELEASE_NOTES_END'' out = [] \<and>
    block_text ''SLACK_MESSAGE_START'' ''SLACK_MESSAGE_END'' out \<noteq> [] \<longrightarrow>
      parseAIResponse out bn =
        \<lparr>releaseNotes = replace_all ''BUILD_NUMBER'' bn out,
         slackMessage = replace_all ''BUILD_NUMBER'' bn
           (block_text ''SLACK_MESSAGE_START'' ''SLACK_MESSAGE_END'' out)\<rparr>) \<and>
   (block_text ''RELEASE_NOTES_START'' ''RELEASE_NOTES_END'' out \<noteq> [] \<and>
    block_text ''SLACK_MESSAGE_START'' ''SLACK_MESSAGE_END'' out \<noteq> [] \<longrightarrow>
      parseAIResponse out bn =
        \<lparr>releaseNotes = replace_all ''BUILD_NUMBER'' bn
           (block_text ''RELEASE_NOTES_START'' ''RELEASE_NOTES_END'' out),
         slackMessage = replace_all ''BUILD_NUMBER'' bn
           (block_text ''SLACK_MESSAGE_START'' ''SLACK_MESSAGE_END'' out)\<rparr>)"
  by (simp add: parseAIResponse_def Let_def)

text \<open>
  A reply that carries the notification block alone. The claim would have the
  release-notes body derived from that block by the shortening rule (the build
  announcement, then the first non-blank lines of the block); the parser takes the whole
  reply, markers included, as the body.
\<close>

theorem parseAIResponse_slack_only_counterexample:
  "block_text ''RELEASE_NOTES_START'' ''RELEASE_NOTES_END''
     (''SLACK_MESSAGE_START'' @ [nl] @ ''Shipped the fix'' @ [nl] @ ''SLACK_MESSAGE_END'') = [] \<and>
   block_text ''SLACK_MESSAGE_START'' ''SLACK_MESSAGE_END''
     (''SLACK_MESSAGE_START'' @ [nl] @ ''Shipped the fix'' @ [nl] @ ''SLACK_MESSAGE_END'') = ''Shipped the fix'' \<and>
   generateWithAI (Some (''SLACK_MESSAGE_START'' @ [nl] @ ''Shipped the fix'' @ [nl] @ ''SLACK_MESSAGE_END''))
     ''20240101.1200'' =
     Some \<lparr>releaseNotes = ''SLACK_MESSAGE_START'' @ [nl] @ ''Shipped the fix'' @ [nl] @ ''SLACK_MESSAGE_END'',
           slackMessage = ''Shipped the fix''\<rparr> \<and>
   replace_all ''BUILD_NUMBER'' ''20240101.1200'' (extractSlackSummary ''Shipped the fix'' ''20240101.1200'') =
     rocket @ '' Build 20240101.1200 deployed'' @ [nl, nl] @ ''Shipped the fix'' \<and>
   ''SLACK_MESSAGE_START'' @ [nl] @ ''Shipped the fix'' @ [nl] @ ''SLACK_MESSAGE_END'' \<noteq>
     rocket @ '' Build 20240101.1200 deployed'' @ [nl, nl] @ ''Shipped the fix''"
  by (simp add: generateWithAI_def callGeminiAPI_def parse_eval rocket_def)

text \<open>
  The two older generators refuse a reply without markers: their parser throws, and
  generation falls to the template path.
\<close>

lemma parseAIResponse_strict_no_markers:
  "parseAIResponse_strict ''Fixed the login bug'' ''20240101.1200'' = Inl ParseError \<and>
   generateWithAI_strict (Some ''Fixed the login bug'') ''20240101.1200'' = None"
  by (simp add: generateWithAI_strict_def parseAIResponse_strict_def callGeminiAPI_def parse_eval)

lemma generateReleaseNotes_path:
  "\<exists>r. generateReleaseNotes config isAiEnabled reply True prAnalysis versionInfo = Inr r \<and>
        (aiGenerated r \<longleftrightarrow> isAiEnabled \<and> (\<exists>t. reply = Some t \<and> trim t \<noteq> [])) \<and>
        (\<not> aiGenerated r \<longrightarrow>
           releaseNotes r = releaseNotes (generateFromTemplate config prAnalysis versionInfo) \<and>
           slackMessage r = slackMessage (generateFromTemplate config prAnalysis versionInfo))"
proof (cases "isAiEnabled \<and> (\<exists>t. reply = Some t \<and> trim t \<noteq> [])")
  case True
  then obtain t where t: "reply = Some t" "trim t \<noteq> []" by blast
  with True show ?thesis
    by (simp add: generateReleaseNotes_def Let_def generateWithAI_Some)
next
  case False
  then have "(if isAiEnabled then generateWithAI reply (buildNumber versionInfo) else None) = None"
    by (auto simp: generateWithAI_None)
  with False show ?thesis
    by (simp add: generateReleaseNotes_def Let_def)
qed

text \<open>
  C1 (amended). In the generator that calls the generation API directly, generation
  fails exactly when the backend call fails or the reply is empty after trimming;
  otherwise the trimmed reply is parsed, and parsing always gives a result. A block
  counts as found when its markers match and its trimmed content is not empty. If
  neither block is found, the release-notes body is the whole reply and the notification
  message is derived from it; if only the release-notes block is found, the
  notification message is derived from that block; if only the notification block is
  found, the release-notes body is the whole reply. The derived message is the build
  announcement, an empty line, and the first five non-blank lines. In both fields
  \<^verbatim>\<open>BUILD_NUMBER\<close> is replaced by the build number. When the files can be written,
  the result comes from the template path exactly when no backend is configured or
  generation fails.
\<close>

theorem generateWithAI_lenient:
  "(generateWithAI reply bn = None \<longleftrightarrow> reply = None \<or> (\<exists>t. reply = Some t \<and> trim t = [])) \<and>
   (\<forall>t. reply = Some t \<and> trim t \<noteq> [] \<longrightarrow>
      generateWithAI reply bn = Some (parseAIResponse (trim t) bn)) \<and>
   (block_text ''RELEASE_NOTES_START'' ''RELEASE_NOTES_END'' out = [] \<and>
    block_text ''SLACK_MESSAGE_START'' ''SLACK_MESSAGE_END'' out = [] \<longrightarrow>
      parseAIResponse out bn =
        \<lparr>releaseNotes = replace_all ''BUILD_NUMBER'' bn out,
         slackMessage = replace_all ''BUILD_NUMBER'' bn (extractSlackSummary out bn)\<rparr>) \<and>
   (block_text ''RELEASE_NOTES_START'' ''RELEASE_NOTES_END'' out \<noteq> [] \<and>
    block_text ''SLACK_MESSAGE_START'' ''SLACK_MESSAGE_END'' out = [] \<longrightarrow>
      parseAIResponse out bn =
        \<lparr>releaseNotes = replace_all ''BUILD_NUMBER'' bn
           (block_text ''RELEASE_NOTES_START'' ''RELEASE_NOTES_END'' out),
         slackMessage = replace_all ''BUILD_NUMBER'' bn
           (extractSlackSummary (block_text ''RELEASE_NOTES_START'' ''RELEASE_NOTES_END'' out) bn)\<rparr>) \<and>
   (block_text ''RELEASE_NOTES_START'' ''RELEASE_NOTES_END'' out = [] \<and>
    block_text ''SLACK_MESSAGE_START'' ''SLACK_MESSAGE_END'' out \<noteq> [] \<longrightarrow>
      parseAIResponse out bn =
        \<lparr>releaseNotes = replace_all ''BUILD_NUMBER'' bn out,
         slackMessage = replace_all ''BUILD_NUMBER'' bn
           (block_text ''SLACK_MESSAGE_START'' ''SLACK_MESSAGE_END'' out)\<rparr>) \<and>
   extractSlackSummary text bn =
     rocket @ '' Build '' @ bn @ '' deployed'' @ [nl, nl] @
     join_nl (take 5 (filter (\<lambda>line. trim line \<noteq> []) (split_nl text))) \<and>
   (\<exists>r. generateReleaseNotes config isAiEnabled reply True prAnalysis versionInfo = Inr r \<and>
        (aiGenerated r \<longleftrightarrow> isAiEnabled \<and> (\<exists>t. reply = Some t \<and> trim t \<noteq> [])) \<and>
        (\<not> aiGenerated r \<longrightarrow>
           releaseNotes r = releaseNotes (generateFromTemplate config prAnalysis versionInfo) \<and>
           slackMessage r = slackMessage (generateFromTemplate config prAnalysis versionInfo)))"
proof (intro conjI)
  show "generateWithAI reply bn = None \<longleftrightarrow> reply = None \<or> (\<exists>t. reply = Some t \<and> trim t = [])"
    by (rule generateWithAI_None)
  show "\<forall>t. reply = Some t \<and> trim t \<noteq> [] \<longrightarrow>
      generateWithAI reply bn = Some (parseAIResponse (trim t) bn)"
    by (simp add: generateWithAI_Some)
  show "extractSlackSummary text bn =
     rocket @ '' Build '' @ bn @ '' deployed'' @ [nl, nl] @
     join_nl (take 5 (filter (\<lambda>line. trim line \<noteq> []) (split_nl text)))"
    by (simp add: extractSlackSummary_def Let_def)
  show "\<exists>r. generateReleaseNotes config isAiEnabled reply True prAnalysis versionInfo = Inr r \<and>
        (aiGenerated r \<longleftrightarrow> isAiEnabled \<and> (\<exists>t. reply = Some t \<and> trim t \<noteq> [])) \<and>
        (\<not> aiGenerated r \<longrightarrow>
           releaseNotes r = releaseNotes (generateFromTemplate config prAnalysis versionInfo) \<and>
           slackMessage r = slackMessage (generateFromTemplate config prAnalysis versionInfo))"
    by (rule generateReleaseNotes_path)
qed (simp_all add: parseAIResponse_def Let_def)

theorem generateWithAI_lenient_witness:
  "trim (''Fixed the login bug'' @ [nl, nl] @ ''Build BUILD_NUMBER adds retries'' @ [nl]) \<noteq> [] \<and>
   generateWithAI (Some (''Fixed the login bug'' @ [nl, nl] @ ''Build BUILD_NUMBER adds retries'' @ [nl]))
     ''20240101.1200'' =
   Some \<lparr>releaseNotes = ''Fixed the login bug'' @ [nl, nl] @ ''Build 20240101.1200 adds retries'',
         slackMessage = rocket @ '' Build 20240101.1200 deployed'' @ [nl, nl] @
           ''Fixed the login bug'' @ [nl] @ ''Build 20240101.1200 adds retries''\<rparr> \<and>
   generateWithAI (Some (''RELEASE_NOTES_START'' @ [nl] @ ''### Public'' @ [nl] @ ''- Faster login'' @
        [nl] @ ''RELEASE_NOTES_END''))
     ''20240101.1200'' =
   Some \<lparr>releaseNotes = ''### Public'' @ [nl] @ ''- Faster login'',
         slackMessage = rocket @ '' Build 20240101.1200 deployed'' @ [nl, nl] @
           ''### Public'' @ [nl] @ ''- Faster login''\<rparr> \<and>
   generateWithAI (Some (''SLACK_MESSAGE_START'' @ [nl] @ ''Shipped BUILD_NUMBER'' @ [nl] @
        ''SLACK_MESSAGE_END''))
     ''20240101.1200'' =
   Some \<lparr>releaseNotes = ''SLACK_MESSAGE_START'' @ [nl] @ ''Shipped 20240101.1200'' @ [nl] @
           ''SLACK_MESSAGE_END'',
         slackMessage = ''Shipped 20240101.1200''\<rparr> \<and>
   generateWithAI (Some ''   '') ''20240101.1200'' = None"
  using generateWithAI_lenient
    [of "Some (''Fixed the login bug'' @ [nl, nl] @ ''Build BUILD_NUMBER adds retries'' @ [nl])"
        "''20240101.1200''"
        "''Fixed the login bug'' @ [nl, nl] @ ''Build BUILD_NUMBER adds retries''"]
    generateWithAI_lenient
    [of "Some (''RELEASE_NOTES_START'' @ [nl] @ ''### Public'' @ [nl] @ ''- Faster login'' @
          [nl] @ ''RELEASE_NOTES_END'')"
        "''20240101.1200''"
        "''RELEASE_NOTES_START'' @ [nl] @ ''### Public'' @ [nl] @ ''- Faster login'' @
          [nl] @ ''RELEASE_NOTES_END''"]
    generateWithAI_lenient
    [of "Some (''SLACK_MESSAGE_START'' @ [nl] @ ''Shipped BUILD_NUMBER'' @ [nl] @
          ''SLACK_MESSAGE_END'')"
        "''20240101.1200''"
        "''SLACK_MESSAGE_START'' @ [nl] @ ''Shipped BUILD_NUMBER'' @ [nl] @ ''SLACK_MESSAGE_END''"]
    generateWithAI_lenient [of "Some ''   ''" "''20240101.1200''"]
  by (simp add: parse_eval rocket_def)

end
